theory Spec2Isabelle
  imports Main "HOL-Library.AList"
begin

section \<open>Python values, dictionaries and the store of caller-owned mappings\<close>

text \<open>
  The connectors of \<^verbatim>\<open>infermedica_api/connectors/v2.py\<close> shuffle JSON-shaped Python
  values between keyword arguments and the parent class that performs the HTTP call.
  A value is a tree; a dictionary is an association list in insertion order, which is
  the order a Python \<^verbatim>\<open>dict\<close> keeps.
\<close>

datatype pyval =
    PNone
  | PBool bool
  | PInt int
  | PStr string
  | PList "pyval list"
  | PDict "(string \<times> pyval) list"

type_synonym dict = "(string \<times> pyval) list"

text \<open>
  \<^verbatim>\<open>d[k] = v\<close> is \<open>AList.update k v d\<close>: an existing key keeps its position and gets
  the new value, a new key is appended. \<^verbatim>\<open>d.update(other)\<close> stores the entries of
  \<^verbatim>\<open>other\<close> one after the other.
\<close>

definition dict_update :: "dict \<Rightarrow> dict \<Rightarrow> dict" where
  "dict_update other d = fold (\<lambda>(k, v). AList.update k v) other d"

text \<open>
  The mappings a caller hands over as the keyword arguments \<^verbatim>\<open>params\<close>,
  \<^verbatim>\<open>headers\<close> and \<^verbatim>\<open>data\<close> are objects of the caller: the connector mutates them
  in place, and the caller sees the change. They live in a store, and a keyword argument
  holds an address. A dictionary created inside a call (\<^verbatim>\<open>{}\<close> as the default of
  \<^verbatim>\<open>kwargs.pop\<close>) has no alias outside the call and is carried by value.
\<close>

type_synonym addr = nat
type_synonym store = "addr \<Rightarrow> dict"

datatype dictobj = Own dict | Shared addr

fun deref :: "store \<Rightarrow> dictobj \<Rightarrow> dict" where
  "deref \<sigma> (Own d) = d"
| "deref \<sigma> (Shared a) = \<sigma> a"

text \<open>\<^verbatim>\<open>obj.update(other)\<close> on a dictionary object: the object is changed where it lives.\<close>

fun obj_update :: "dict \<Rightarrow> dictobj \<Rightarrow> store \<Rightarrow> dictobj \<times> store" where
  "obj_update other (Own d) \<sigma> = (Own (dict_update other d), \<sigma>)"
| "obj_update other (Shared a) \<sigma> = (Shared a, \<sigma>(a := dict_update other (\<sigma> a)))"

text \<open>
  The keyword arguments \<^verbatim>\<open>**kwargs\<close> of an operation. The recognised options are
  \<^verbatim>\<open>params\<close>, \<^verbatim>\<open>headers\<close> and \<^verbatim>\<open>data\<close>; each one is absent or a mapping of the
  caller.
\<close>

record kwargs =
  kw_params :: "addr option"
  kw_headers :: "addr option"
  kw_data :: "addr option"

definition no_kwargs :: kwargs where
  "no_kwargs = \<lparr>kw_params = None, kw_headers = None, kw_data = None\<rparr>"

text \<open>\<^verbatim>\<open>kwargs.pop(key, {})\<close>: the caller's mapping when the key is there, a new empty one otherwise.\<close>

definition pop_or_new :: "addr option \<Rightarrow> dictobj" where
  "pop_or_new r = (case r of Some a \<Rightarrow> Shared a | None \<Rightarrow> Own [])"

text \<open>The mapping a caller supplied under a keyword, read as a value (empty when absent).\<close>

definition supplied :: "store \<Rightarrow> addr option \<Rightarrow> dict" where
  "supplied \<sigma> r = (case r of Some a \<Rightarrow> \<sigma> a | None \<Rightarrow> [])"

text \<open>Two keyword arguments hold one and the same object of the caller.\<close>

definition aliased :: "addr option \<Rightarrow> addr option \<Rightarrow> bool" where
  "aliased r s = (case r of None \<Rightarrow> False | Some a \<Rightarrow> s = Some a)"

section \<open>Errors and the collaborators of the connector\<close>

datatype error =
    InvalidSearchConceptType string
  | TypeError string
  | MethodNotAvailableInAPIVersion string
  | TransportError nat pyval
  | NetworkError
  | MalformedResponseError

text \<open>
  The keyword arguments with which a method of the parent class is called. \<open>ident\<close> is
  the identifier argument of the lookup operations (\<^verbatim>\<open>condition_id\<close>, ...); a mapping
  that is not passed, or passed as \<^verbatim>\<open>None\<close>, is \<open>None\<close>.
\<close>

record call_args =
  arg_id :: "string option"
  arg_data :: "dict option"
  arg_params :: "dict option"
  arg_headers :: "dict option"

text \<open>
  Modelled from the spec: the diagnostic request (session) object, class \<^verbatim>\<open>Diagnosis\<close> of
  the \<^verbatim>\<open>models\<close> module, which is not among the sources. It is "a mutable, caller-owned
  aggregate holding sex, age, evidence list, extras, and an interview/session
  identifier"; \<open>d_more\<close> stands for the rest of it (conditions, question, ...).
\<close>

record 'q Diagnosis =
  d_sex :: pyval
  d_age :: pyval
  d_evidence :: "pyval list"
  d_extras :: "dict option"
  d_interview_id :: "string option"
  d_more :: 'q

text \<open>
  Everything the two connector classes take from outside this file, as one record
  (the \<^verbatim>\<open>self\<close> of the source, as far as the code reads it):
  \<^item> \<open>interview_header\<close>: the configured name of the interview-id header;
  \<^item> \<open>get_value\<close>, \<open>has_value\<close>: the static methods of \<^verbatim>\<open>SearchConceptType\<close>;
  \<^item> \<open>get_method\<close>, \<open>call_api_post\<close>: \<^verbatim>\<open>_get_method\<close> and \<^verbatim>\<open>call_api_post\<close> of
    \<^verbatim>\<open>BaseAPIConnector\<close>;
  \<^item> \<open>parent\<close>: the methods inherited from \<^verbatim>\<open>BasicAPICommonMethodsMixin\<close>, by name,
    which perform the transport call;
  \<^item> \<open>from_json\<close>: the \<^verbatim>\<open>from_json\<close> constructors of the model classes, by class name;
  \<^item> \<open>update_from_api\<close>: \<^verbatim>\<open>Diagnosis.update_from_api\<close>, which changes the session
    object it is called on in place and, as the conversion step of \<^verbatim>\<open>diagnosis\<close>, may
    raise: \<open>Inr d'\<close> is the object after the update, \<open>Inl (e, d')\<close> is the error raised
    and the object as the failed update has left it.
\<close>

record ('c, 'm, 'q) env =
  interview_header :: string
  get_value :: "'c \<Rightarrow> string"
  has_value :: "string \<Rightarrow> bool"
  get_method :: "string \<Rightarrow> error + string"
  call_api_post :: "string \<Rightarrow> call_args \<Rightarrow> error + pyval"
  parent :: "string \<Rightarrow> call_args \<Rightarrow> error + pyval"
  from_json :: "string \<Rightarrow> pyval \<Rightarrow> error + 'm"
  update_from_api :: "'q Diagnosis \<Rightarrow> pyval \<Rightarrow> (error \<times> 'q Diagnosis) + 'q Diagnosis"

section \<open>APIv2Connector\<close>

subsection \<open>get_diagnostic_data_dict\<close>

text \<open>
  \<^verbatim>\<open>if extras:\<close> on an \<^verbatim>\<open>Optional[ExtrasDict]\<close>: true for a mapping with at least one
  entry, false for \<^verbatim>\<open>None\<close> and for \<^verbatim>\<open>{}\<close>.
\<close>

definition truthy_dict :: "dict option \<Rightarrow> bool" where
  "truthy_dict x = (case x of None \<Rightarrow> False | Some d \<Rightarrow> d \<noteq> [])"

definition get_diagnostic_data_dict :: "pyval list \<Rightarrow> pyval \<Rightarrow> pyval \<Rightarrow> dict option \<Rightarrow> dict" where
  "get_diagnostic_data_dict evidence sex age extras =
     (let data = [(''sex'', sex), (''age'', age), (''evidence'', PList evidence)]
      in if truthy_dict extras
         then AList.update ''extras'' (PDict (the extras)) data
         else data)"


subsection \<open>Helpers of the parent classes\<close>

text \<open>
  Modelled from the spec: \<^verbatim>\<open>get_interview_id_headers\<close> of \<^verbatim>\<open>BaseAPIConnector\<close>
  (\<^verbatim>\<open>connectors/common.py\<close> is not among the sources). It "returns an empty mapping
  when no id is supplied; otherwise returns a single header entry associating the
  configured interview-id header name with the given value".
\<close>

definition get_interview_id_headers :: "string \<Rightarrow> string option \<Rightarrow> dict" where
  "get_interview_id_headers name interview_id =
     (case interview_id of None \<Rightarrow> [] | Some v \<Rightarrow> [(name, PStr v)])"

text \<open>
  A mapping left in \<^verbatim>\<open>**kwargs\<close> and forwarded to the parent method: the parent reads
  the caller's object as it is at the time of the call.
\<close>

definition forwarded :: "store \<Rightarrow> addr option \<Rightarrow> dict option" where
  "forwarded \<sigma> r = map_option \<sigma> r"

text \<open>
  \<^verbatim>\<open>super().op(data=data, headers=headers, **kwargs)\<close> after \<^verbatim>\<open>headers\<close> was popped:
  what is left in \<^verbatim>\<open>kwargs\<close> is passed on. When \<^verbatim>\<open>kwargs\<close> still holds \<^verbatim>\<open>data\<close>,
  the call itself raises \<^verbatim>\<open>TypeError\<close> (multiple values for the keyword argument) and
  the parent method is not entered.
\<close>

definition call_parent_with_kwargs ::
  "('c, 'm, 'q) env \<Rightarrow> string \<Rightarrow> store \<Rightarrow> dict \<Rightarrow> dictobj \<Rightarrow> kwargs \<Rightarrow> error + pyval" where
  "call_parent_with_kwargs E name \<sigma> data headers kw =
     (if kw_data kw \<noteq> None then Inl (TypeError ''data'')
      else parent E name
             \<lparr>arg_id = None, arg_data = Some data,
              arg_params = forwarded \<sigma> (kw_params kw),
              arg_headers = Some (deref \<sigma> headers)\<rparr>)"

subsection \<open>BasicAPIv2Connector.red_flags\<close>

text \<open>
  The only inherited operation that the source file defines itself: it resolves the
  method with \<^verbatim>\<open>_get_method\<close>, which may raise, and posts the request.
\<close>

definition Basic_red_flags ::
  "('c, 'm, 'q) env \<Rightarrow> dict \<Rightarrow> dict option \<Rightarrow> dict option \<Rightarrow> error + pyval" where
  "Basic_red_flags E data params headers =
     (case get_method E ''red_flags'' of
        Inl e \<Rightarrow> Inl e
      | Inr method \<Rightarrow>
          call_api_post E method
            \<lparr>arg_id = None, arg_data = Some data, arg_params = params, arg_headers = headers\<rparr>)"

subsection \<open>search\<close>

text \<open>\<^verbatim>\<open>if sex:\<close> on an \<^verbatim>\<open>Optional[str]\<close> and \<^verbatim>\<open>if types:\<close> on an \<^verbatim>\<open>Optional[List]\<close>.\<close>

definition truthy_str :: "string option \<Rightarrow> bool" where
  "truthy_str x = (case x of None \<Rightarrow> False | Some s \<Rightarrow> s \<noteq> [])"

definition truthy_list :: "'a list option \<Rightarrow> bool" where
  "truthy_list x = (case x of None \<Rightarrow> False | Some l \<Rightarrow> l \<noteq> [])"

text \<open>The loop over \<^verbatim>\<open>types_as_str_list\<close>: it raises at the first value that \<^verbatim>\<open>has_value\<close> rejects.\<close>

fun check_types :: "(string \<Rightarrow> bool) \<Rightarrow> string list \<Rightarrow> error + unit" where
  "check_types hv [] = Inr ()"
| "check_types hv (concept_type # rest) =
     (if \<not> hv concept_type then Inl (InvalidSearchConceptType concept_type)
      else check_types hv rest)"

definition APIv2_search ::
  "('c, 'm, 'q) env \<Rightarrow> store \<Rightarrow> string \<Rightarrow> string option \<Rightarrow> pyval \<Rightarrow> 'c list option \<Rightarrow> kwargs
     \<Rightarrow> (error + pyval) \<times> store" where
  "APIv2_search E \<sigma> phrase sex max_results types kw =
     (let (params, \<sigma>1) =
            obj_update [(''phrase'', PStr phrase), (''max_results'', max_results)]
              (pop_or_new (kw_params kw)) \<sigma>;
          (params, \<sigma>2) =
            (if truthy_str sex then obj_update [(''sex'', PStr (the sex))] params \<sigma>1
             else (params, \<sigma>1));
          checked =
            (if truthy_list types
             then (let types_as_str_list = map (get_value E) (the types)
                   in case check_types (has_value E) types_as_str_list of
                        Inl e \<Rightarrow> Inl e
                      | Inr _ \<Rightarrow>
                          Inr (obj_update [(''type'', PList (map PStr types_as_str_list))]
                                 params \<sigma>2))
             else Inr (params, \<sigma>2))
      in case checked of
           Inl e \<Rightarrow> (Inl e, \<sigma>2)
         | Inr (params, \<sigma>3) \<Rightarrow>
             (parent E ''search''
                \<lparr>arg_id = None, arg_data = forwarded \<sigma>3 (kw_data kw),
                 arg_params = Some (deref \<sigma>3 params),
                 arg_headers = forwarded \<sigma>3 (kw_headers kw)\<rparr>, \<sigma>3))"

subsection \<open>parse\<close>

definition APIv2_parse ::
  "('c, 'm, 'q) env \<Rightarrow> store \<Rightarrow> string \<Rightarrow> pyval \<Rightarrow> string option \<Rightarrow> kwargs
     \<Rightarrow> (error + pyval) \<times> store" where
  "APIv2_parse E \<sigma> text include_tokens interview_id kw =
     (let params = kw_params kw;
          (headers, \<sigma>1) =
            obj_update (get_interview_id_headers (interview_header E) interview_id)
              (pop_or_new (kw_headers kw)) \<sigma>;
          (data, \<sigma>2) =
            obj_update [(''text'', PStr text), (''include_tokens'', include_tokens)]
              (pop_or_new (kw_data kw)) \<sigma>1
      in (parent E ''parse''
            \<lparr>arg_id = None, arg_data = Some (deref \<sigma>2 data),
             arg_params = forwarded \<sigma>2 params,
             arg_headers = Some (deref \<sigma>2 headers)\<rparr>, \<sigma>2))"

subsection \<open>suggest and red_flags\<close>

definition APIv2_suggest ::
  "('c, 'm, 'q) env \<Rightarrow> store \<Rightarrow> pyval list \<Rightarrow> pyval \<Rightarrow> pyval \<Rightarrow> dict option \<Rightarrow> pyval
     \<Rightarrow> string option \<Rightarrow> kwargs \<Rightarrow> (error + pyval) \<times> store" where
  "APIv2_suggest E \<sigma> evidence sex age extras max_results interview_id kw =
     (let (params, \<sigma>1) =
            obj_update [(''max_results'', max_results)] (pop_or_new (kw_params kw)) \<sigma>;
          (headers, \<sigma>2) =
            obj_update (get_interview_id_headers (interview_header E) interview_id)
              (pop_or_new (kw_headers kw)) \<sigma>1;
          data = get_diagnostic_data_dict evidence sex age extras
      in (parent E ''suggest''
            \<lparr>arg_id = None, arg_data = Some data,
             arg_params = Some (deref \<sigma>2 params),
             arg_headers = Some (deref \<sigma>2 headers)\<rparr>, \<sigma>2))"

definition APIv2_red_flags ::
  "('c, 'm, 'q) env \<Rightarrow> store \<Rightarrow> pyval list \<Rightarrow> pyval \<Rightarrow> pyval \<Rightarrow> dict option \<Rightarrow> pyval
     \<Rightarrow> string option \<Rightarrow> kwargs \<Rightarrow> (error + pyval) \<times> store" where
  "APIv2_red_flags E \<sigma> evidence sex age extras max_results interview_id kw =
     (let (params, \<sigma>1) =
            obj_update [(''max_results'', max_results)] (pop_or_new (kw_params kw)) \<sigma>;
          (headers, \<sigma>2) =
            obj_update (get_interview_id_headers (interview_header E) interview_id)
              (pop_or_new (kw_headers kw)) \<sigma>1;
          data = get_diagnostic_data_dict evidence sex age extras
      in (Basic_red_flags E data (Some (deref \<sigma>2 params)) (Some (deref \<sigma>2 headers)), \<sigma>2))"

subsection \<open>diagnosis, rationale, explain and triage\<close>

definition APIv2_diagnosis ::
  "('c, 'm, 'q) env \<Rightarrow> store \<Rightarrow> pyval list \<Rightarrow> pyval \<Rightarrow> pyval \<Rightarrow> dict option
     \<Rightarrow> string option \<Rightarrow> kwargs \<Rightarrow> (error + pyval) \<times> store" where
  "APIv2_diagnosis E \<sigma> evidence sex age extras interview_id kw =
     (let (headers, \<sigma>1) =
            obj_update (get_interview_id_headers (interview_header E) interview_id)
              (pop_or_new (kw_headers kw)) \<sigma>;
          data = get_diagnostic_data_dict evidence sex age extras
      in (call_parent_with_kwargs E ''diagnosis'' \<sigma>1 data headers kw, \<sigma>1))"

definition APIv2_rationale ::
  "('c, 'm, 'q) env \<Rightarrow> store \<Rightarrow> pyval list \<Rightarrow> pyval \<Rightarrow> pyval \<Rightarrow> dict option
     \<Rightarrow> string option \<Rightarrow> kwargs \<Rightarrow> (error + pyval) \<times> store" where
  "APIv2_rationale E \<sigma> evidence sex age extras interview_id kw =
     (let (headers, \<sigma>1) =
            obj_update (get_interview_id_headers (interview_header E) interview_id)
              (pop_or_new (kw_headers kw)) \<sigma>;
          data = get_diagnostic_data_dict evidence sex age extras
      in (call_parent_with_kwargs E ''rationale'' \<sigma>1 data headers kw, \<sigma>1))"

definition APIv2_explain ::
  "('c, 'm, 'q) env \<Rightarrow> store \<Rightarrow> string \<Rightarrow> pyval list \<Rightarrow> pyval \<Rightarrow> pyval \<Rightarrow> dict option
     \<Rightarrow> string option \<Rightarrow> kwargs \<Rightarrow> (error + pyval) \<times> store" where
  "APIv2_explain E \<sigma> target_id evidence sex age extras interview_id kw =
     (let (headers, \<sigma>1) =
            obj_update (get_interview_id_headers (interview_header E) interview_id)
              (pop_or_new (kw_headers kw)) \<sigma>;
          data = get_diagnostic_data_dict evidence sex age extras;
          data = AList.update ''target'' (PStr target_id) data
      in (call_parent_with_kwargs E ''explain'' \<sigma>1 data headers kw, \<sigma>1))"

definition APIv2_triage ::
  "('c, 'm, 'q) env \<Rightarrow> store \<Rightarrow> pyval list \<Rightarrow> pyval \<Rightarrow> pyval \<Rightarrow> dict option
     \<Rightarrow> string option \<Rightarrow> kwargs \<Rightarrow> (error + pyval) \<times> store" where
  "APIv2_triage E \<sigma> evidence sex age extras interview_id kw =
     (let (headers, \<sigma>1) =
            obj_update (get_interview_id_headers (interview_header E) interview_id)
              (pop_or_new (kw_headers kw)) \<sigma>;
          data = get_diagnostic_data_dict evidence sex age extras
      in (call_parent_with_kwargs E ''triage'' \<sigma>1 data headers kw, \<sigma>1))"

section \<open>ModelAPIv2Connector\<close>

text \<open>
  The state the model-aware layer works on: the caller's mappings and the caller's
  session objects, each behind its address.
\<close>

record 'q state =
  dicts :: store
  sessions :: "addr \<Rightarrow> 'q Diagnosis"

text \<open>
  Modelled from the spec: \<^verbatim>\<open>Diagnosis.get_api_request\<close> (the \<^verbatim>\<open>models\<close> module is not
  among the sources). Step 1 of the typed result mapper: "extract {sex, age, evidence,
  extras, interviewId} from the session object"; the result is unpacked (\<^verbatim>\<open>**data\<close>)
  into the parameters \<^verbatim>\<open>evidence\<close>, \<^verbatim>\<open>sex\<close>, \<^verbatim>\<open>age\<close> and \<^verbatim>\<open>extras\<close> of the lower layer.
\<close>

record api_request =
  r_evidence :: "pyval list"
  r_sex :: pyval
  r_age :: pyval
  r_extras :: "dict option"

definition get_api_request :: "'q Diagnosis \<Rightarrow> api_request" where
  "get_api_request d =
     \<lparr>r_evidence = d_evidence d, r_sex = d_sex d, r_age = d_age d, r_extras = d_extras d\<rparr>"

text \<open>
  What a model-aware operation returns: the raw response, a typed model object, or the
  session object it was given (its address: the very same object).
\<close>

datatype 'm result = Raw pyval | Typed 'm | Session addr

text \<open>\<^verbatim>\<open>return response\<close> and \<^verbatim>\<open>return models.C.from_json(response)\<close> after a call that may have raised.\<close>

definition return_raw :: "error + pyval \<Rightarrow> error + 'm result" where
  "return_raw response = (case response of Inl e \<Rightarrow> Inl e | Inr r \<Rightarrow> Inr (Raw r))"

definition return_model :: "('c, 'm, 'q) env \<Rightarrow> string \<Rightarrow> error + pyval \<Rightarrow> error + 'm result" where
  "return_model E cls response =
     (case response of
        Inl e \<Rightarrow> Inl e
      | Inr r \<Rightarrow> (case from_json E cls r of Inl e \<Rightarrow> Inl e | Inr m \<Rightarrow> Inr (Typed m)))"

subsection \<open>Session-bound operations\<close>

text \<open>
  \<^verbatim>\<open>suggest\<close> and \<^verbatim>\<open>red_flags\<close> call the lower layer with \<^verbatim>\<open>max_results\<close>, the interview
  id and the unpacked request only: their own \<^verbatim>\<open>**kwargs\<close> is not among the arguments of
  the call. The other operations pass \<^verbatim>\<open>**kwargs\<close> on.
\<close>

definition Model_suggest ::
  "('c, 'm, 'q) env \<Rightarrow> 'q state \<Rightarrow> addr \<Rightarrow> pyval \<Rightarrow> kwargs \<Rightarrow> (error + 'm result) \<times> 'q state" where
  "Model_suggest E st diagnosis_request max_results kw =
     (let data = get_api_request (sessions st diagnosis_request);
          (response, \<sigma>) =
            APIv2_suggest E (dicts st) (r_evidence data) (r_sex data) (r_age data) (r_extras data)
              max_results (d_interview_id (sessions st diagnosis_request)) no_kwargs
      in (return_raw response, st\<lparr>dicts := \<sigma>\<rparr>))"

definition Model_red_flags ::
  "('c, 'm, 'q) env \<Rightarrow> 'q state \<Rightarrow> addr \<Rightarrow> pyval \<Rightarrow> kwargs \<Rightarrow> (error + 'm result) \<times> 'q state" where
  "Model_red_flags E st diagnosis_request max_results kw =
     (let data = get_api_request (sessions st diagnosis_request);
          (response, \<sigma>) =
            APIv2_red_flags E (dicts st) (r_evidence data) (r_sex data) (r_age data) (r_extras data)
              max_results (d_interview_id (sessions st diagnosis_request)) no_kwargs
      in (return_model E ''RedFlagList'' response, st\<lparr>dicts := \<sigma>\<rparr>))"

definition Model_parse ::
  "('c, 'm, 'q) env \<Rightarrow> 'q state \<Rightarrow> string \<Rightarrow> pyval \<Rightarrow> string option \<Rightarrow> kwargs
     \<Rightarrow> (error + 'm result) \<times> 'q state" where
  "Model_parse E st text include_tokens interview_id kw =
     (let (response, \<sigma>) = APIv2_parse E (dicts st) text include_tokens interview_id kw
      in (return_model E ''ParseResults'' response, st\<lparr>dicts := \<sigma>\<rparr>))"

definition Model_diagnosis ::
  "('c, 'm, 'q) env \<Rightarrow> 'q state \<Rightarrow> addr \<Rightarrow> kwargs \<Rightarrow> (error + 'm result) \<times> 'q state" where
  "Model_diagnosis E st diagnosis_request kw =
     (let data = get_api_request (sessions st diagnosis_request);
          (response, \<sigma>) =
            APIv2_diagnosis E (dicts st) (r_evidence data) (r_sex data) (r_age data) (r_extras data)
              (d_interview_id (sessions st diagnosis_request)) kw
      in case response of
           Inl e \<Rightarrow> (Inl e, st\<lparr>dicts := \<sigma>\<rparr>)
         | Inr r \<Rightarrow>
             (case update_from_api E (sessions st diagnosis_request) r of
                Inl (e, d') \<Rightarrow>
                  (Inl e, \<lparr>dicts = \<sigma>, sessions = (sessions st)(diagnosis_request := d')\<rparr>)
              | Inr d' \<Rightarrow>
                  (Inr (Session diagnosis_request),
                   \<lparr>dicts = \<sigma>, sessions = (sessions st)(diagnosis_request := d')\<rparr>)))"

definition Model_rationale ::
  "('c, 'm, 'q) env \<Rightarrow> 'q state \<Rightarrow> addr \<Rightarrow> kwargs \<Rightarrow> (error + 'm result) \<times> 'q state" where
  "Model_rationale E st diagnosis_request kw =
     (let data = get_api_request (sessions st diagnosis_request);
          (response, \<sigma>) =
            APIv2_rationale E (dicts st) (r_evidence data) (r_sex data) (r_age data) (r_extras data)
              (d_interview_id (sessions st diagnosis_request)) kw
      in (return_model E ''RationaleResult'' response, st\<lparr>dicts := \<sigma>\<rparr>))"

definition Model_explain ::
  "('c, 'm, 'q) env \<Rightarrow> 'q state \<Rightarrow> addr \<Rightarrow> string \<Rightarrow> kwargs \<Rightarrow> (error + 'm result) \<times> 'q state" where
  "Model_explain E st diagnosis_request target_id kw =
     (let data = get_api_request (sessions st diagnosis_request);
          (response, \<sigma>) =
            APIv2_explain E (dicts st) target_id (r_evidence data) (r_sex data) (r_age data)
              (r_extras data) (d_interview_id (sessions st diagnosis_request)) kw
      in (return_model E ''ExplainResults'' response, st\<lparr>dicts := \<sigma>\<rparr>))"

definition Model_triage ::
  "('c, 'm, 'q) env \<Rightarrow> 'q state \<Rightarrow> addr \<Rightarrow> kwargs \<Rightarrow> (error + 'm result) \<times> 'q state" where
  "Model_triage E st diagnosis_request kw =
     (let data = get_api_request (sessions st diagnosis_request);
          (response, \<sigma>) =
            APIv2_triage E (dicts st) (r_evidence data) (r_sex data) (r_age data) (r_extras data)
              (d_interview_id (sessions st diagnosis_request)) kw
      in (return_raw response, st\<lparr>dicts := \<sigma>\<rparr>))"

subsection \<open>Lookups without a session\<close>

text \<open>
  \<^verbatim>\<open>super().op(x_id=x_id, **kwargs)\<close> and \<^verbatim>\<open>super().op(**kwargs)\<close>: the inherited method
  gets the identifier and the caller's keyword arguments as they are.
\<close>

definition lookup_args :: "store \<Rightarrow> string option \<Rightarrow> kwargs \<Rightarrow> call_args" where
  "lookup_args \<sigma> x kw =
     \<lparr>arg_id = x, arg_data = forwarded \<sigma> (kw_data kw),
      arg_params = forwarded \<sigma> (kw_params kw), arg_headers = forwarded \<sigma> (kw_headers kw)\<rparr>"

definition Model_condition_details ::
  "('c, 'm, 'q) env \<Rightarrow> 'q state \<Rightarrow> string \<Rightarrow> kwargs \<Rightarrow> error + 'm result" where
  "Model_condition_details E st condition_id kw =
     (let response = parent E ''condition_details'' (lookup_args (dicts st) (Some condition_id) kw)
      in return_model E ''Condition'' response)"

definition Model_conditions_list :: "('c, 'm, 'q) env \<Rightarrow> 'q state \<Rightarrow> kwargs \<Rightarrow> error + 'm result" where
  "Model_conditions_list E st kw =
     (let response = parent E ''conditions_list'' (lookup_args (dicts st) None kw)
      in return_model E ''ConditionList'' response)"

definition Model_symptom_details ::
  "('c, 'm, 'q) env \<Rightarrow> 'q state \<Rightarrow> string \<Rightarrow> kwargs \<Rightarrow> error + 'm result" where
  "Model_symptom_details E st symptom_id kw =
     (let response = parent E ''symptom_details'' (lookup_args (dicts st) (Some symptom_id) kw)
      in return_model E ''Symptom'' response)"

definition Model_symptoms_list :: "('c, 'm, 'q) env \<Rightarrow> 'q state \<Rightarrow> kwargs \<Rightarrow> error + 'm result" where
  "Model_symptoms_list E st kw =
     (let response = parent E ''symptoms_list'' (lookup_args (dicts st) None kw)
      in return_model E ''SymptomList'' response)"

definition Model_risk_factor_details ::
  "('c, 'm, 'q) env \<Rightarrow> 'q state \<Rightarrow> string \<Rightarrow> kwargs \<Rightarrow> error + 'm result" where
  "Model_risk_factor_details E st risk_factor_id kw =
     (let response = parent E ''risk_factor_details'' (lookup_args (dicts st) (Some risk_factor_id) kw)
      in return_model E ''RiskFactor'' response)"

definition Model_risk_factors_list :: "('c, 'm, 'q) env \<Rightarrow> 'q state \<Rightarrow> kwargs \<Rightarrow> error + 'm result" where
  "Model_risk_factors_list E st kw =
     (let response = parent E ''risk_factors_list'' (lookup_args (dicts st) None kw)
      in return_model E ''RiskFactorList'' response)"

definition Model_lab_test_details ::
  "('c, 'm, 'q) env \<Rightarrow> 'q state \<Rightarrow> string \<Rightarrow> kwargs \<Rightarrow> error + 'm result" where
  "Model_lab_test_details E st lab_test_id kw =
     (let response = parent E ''lab_test_details'' (lookup_args (dicts st) (Some lab_test_id) kw)
      in return_model E ''LabTest'' response)"

definition Model_lab_tests_list :: "('c, 'm, 'q) env \<Rightarrow> 'q state \<Rightarrow> kwargs \<Rightarrow> error + 'm result" where
  "Model_lab_tests_list E st kw =
     (let response = parent E ''lab_tests_list'' (lookup_args (dicts st) None kw)
      in return_model E ''LabTestList'' response)"

section \<open>Vocabulary of the properties\<close>

text \<open>
  An operation, seen as a function of the parent method \<open>p\<close> it delegates to, sends the
  mapping \<open>v\<close> in the field \<open>field\<close> of its call: whatever the parent method does, the
  outcome of the operation is the outcome of the parent method on one and the same call,
  and that call carries \<open>v\<close>.
\<close>

definition sends ::
  "(call_args \<Rightarrow> dict option) \<Rightarrow> ((string \<Rightarrow> call_args \<Rightarrow> error + pyval) \<Rightarrow> error + pyval)
     \<Rightarrow> dict \<Rightarrow> bool" where
  "sends field f v \<longleftrightarrow> (\<exists>n a. field a = Some v \<and> (\<forall>p. f p = p n a))"

text \<open>
  An operation, seen as a function of a collaborator \<open>c\<close> (the parent method, the
  transport, a \<^verbatim>\<open>from_json\<close> constructor), propagates the errors of the collaborator:
  either it has raised before the collaborator is reached, with an error that does not
  depend on it, or it calls the collaborator once and an error of that call is the
  outcome of the operation, unchanged.
\<close>

definition propagates :: "(('x \<Rightarrow> 'y \<Rightarrow> error + 'r) \<Rightarrow> error + 'a) \<Rightarrow> bool" where
  "propagates f \<longleftrightarrow>
     (\<exists>e. \<forall>c. f c = Inl e)
   \<or> (\<exists>x y k. \<forall>c. f c = (case c x y of Inl e \<Rightarrow> Inl e | Inr r \<Rightarrow> k r))"

text \<open>
  The same for \<^verbatim>\<open>update_from_api\<close>, the collaborator that raises together with the object
  it leaves behind: the operation has raised before reaching it, or it calls it once and
  the error of that call is the outcome of the operation, unchanged.
\<close>

definition propagates_update ::
  "(('d \<Rightarrow> pyval \<Rightarrow> (error \<times> 'd) + 'd) \<Rightarrow> error + 'a) \<Rightarrow> bool" where
  "propagates_update f \<longleftrightarrow>
     (\<exists>e. \<forall>u. f u = Inl e)
   \<or> (\<exists>d r k. \<forall>u. f u = (case u d r of Inl (e, d') \<Rightarrow> Inl e | Inr d' \<Rightarrow> k d'))"

text \<open>
  The entries that \<^verbatim>\<open>search\<close> derives from its own arguments, in the order in which it
  stores them into \<^verbatim>\<open>params\<close> (when every filter is valid).
\<close>

definition search_entries ::
  "('c \<Rightarrow> string) \<Rightarrow> string \<Rightarrow> string option \<Rightarrow> pyval \<Rightarrow> 'c list option \<Rightarrow> dict" where
  "search_entries gv phrase sex max_results types =
     [(''phrase'', PStr phrase), (''max_results'', max_results)]
     @ (if truthy_str sex then [(''sex'', PStr (the sex))] else [])
     @ (if truthy_list types then [(''type'', PList (map PStr (map gv (the types))))] else [])"

subsection \<open>A mock configuration for concrete runs\<close>

text \<open>
  The transport of the mock answers every call with what it was called with, so that a
  concrete run shows what reached it.
\<close>

fun opt_dict :: "dict option \<Rightarrow> pyval" where
  "opt_dict None = PNone"
| "opt_dict (Some d) = PDict d"

definition echo :: "string \<Rightarrow> call_args \<Rightarrow> error + pyval" where
  "echo name a =
     Inr (PDict [(''method'', PStr name), (''data'', opt_dict (arg_data a)),
                 (''params'', opt_dict (arg_params a)), (''headers'', opt_dict (arg_headers a))])"

definition test_env :: "(string, pyval, pyval) env" where
  "test_env =
     \<lparr>interview_header = ''Interview-Id'',
      get_value = (\<lambda>c. c),
      has_value = (\<lambda>s. s \<in> set [''symptom'', ''risk_factor'', ''lab_test'']),
      get_method = (\<lambda>name. Inr name),
      call_api_post = echo,
      parent = echo,
      from_json = (\<lambda>cls r. Inr r),
      update_from_api = (\<lambda>d r. Inr (d\<lparr>d_more := r\<rparr>))\<rparr>"

text \<open>A mocked transport that answers every call with the response \<open>R\<close>.\<close>

definition const_transport :: "pyval \<Rightarrow> string \<Rightarrow> call_args \<Rightarrow> error + pyval" where
  "const_transport R name a = Inr R"

definition empty_store :: store where
  "empty_store = (\<lambda>a. [])"

definition only_headers :: "addr \<Rightarrow> kwargs" where
  "only_headers h = \<lparr>kw_params = None, kw_headers = Some h, kw_data = None\<rparr>"

definition only_params :: "addr \<Rightarrow> kwargs" where
  "only_params a = \<lparr>kw_params = Some a, kw_headers = None, kw_data = None\<rparr>"

definition params_and_headers :: "addr \<Rightarrow> kwargs" where
  "params_and_headers a = \<lparr>kw_params = Some a, kw_headers = Some a, kw_data = None\<rparr>"

definition only_data :: "addr \<Rightarrow> kwargs" where
  "only_data a = \<lparr>kw_params = None, kw_headers = None, kw_data = Some a\<rparr>"

text \<open>An \<^verbatim>\<open>update_from_api\<close> that rejects every response and changes nothing.\<close>

definition rejecting_update ::
  "pyval Diagnosis \<Rightarrow> pyval \<Rightarrow> (error \<times> pyval Diagnosis) + pyval Diagnosis" where
  "rejecting_update d r = Inl (MalformedResponseError, d)"

definition test_session :: "pyval Diagnosis" where
  "test_session =
     \<lparr>d_sex = PStr ''male'', d_age = PInt 42, d_evidence = [], d_extras = None,
      d_interview_id = Some ''i1'', d_more = PNone\<rparr>"

definition test_state :: "store \<Rightarrow> pyval state" where
  "test_state \<sigma> = \<lparr>dicts = \<sigma>, sessions = (\<lambda>a. test_session)\<rparr>"

section \<open>Properties\<close>

subsection \<open>Auxiliary facts\<close>

lemma dict_update_Nil: "dict_update [] d = d"
  by (simp add: dict_update_def)

lemma dict_update_Cons: "dict_update ((k, v) # rest) d = dict_update rest (AList.update k v d)"
  by (simp add: dict_update_def)

lemma sendsI: "field a = Some v \<Longrightarrow> sends field (\<lambda>p. p n a) v"
  unfolding sends_def by blast

lemma not_aliased:
  "\<not> aliased r s \<Longrightarrow> r = Some a \<Longrightarrow> s \<noteq> Some a"
  by (simp add: aliased_def)

lemmas unfold_ops = Let_def case_prod_beta pop_or_new_def supplied_def forwarded_def
  dict_update_Nil dict_update_Cons call_parent_with_kwargs_def Basic_red_flags_def

lemmas eval_ops = unfold_ops get_interview_id_headers_def get_diagnostic_data_dict_def
  truthy_dict_def truthy_str_def truthy_list_def test_env_def echo_def empty_store_def
  no_kwargs_def


subsection \<open>The diagnostic payload\<close>

text \<open>
  C1. For every evidence list \<open>E\<close>, sex value, age value and optional extras mapping \<open>X\<close>,
  the payload built by \<^verbatim>\<open>get_diagnostic_data_dict\<close> has the keys \<^verbatim>\<open>sex\<close>, \<^verbatim>\<open>age\<close> and
  \<^verbatim>\<open>evidence\<close> with the given values (the evidence list as it is, also when empty), and
  no other key except \<^verbatim>\<open>extras\<close>; the key \<^verbatim>\<open>extras\<close> is there if and only if \<open>X\<close> is
  supplied and not empty, and then its value is \<open>X\<close>. No key occurs twice.
\<close>

theorem get_diagnostic_data_dict_keys:
  "(let p = get_diagnostic_data_dict E sex age X in
      map_of p ''sex'' = Some sex
    \<and> map_of p ''age'' = Some age
    \<and> map_of p ''evidence'' = Some (PList E)
    \<and> (''extras'' \<in> fst ` set p \<longleftrightarrow> (\<exists>x. X = Some x \<and> x \<noteq> []))
    \<and> (\<forall>x. X = Some x \<and> x \<noteq> [] \<longrightarrow> map_of p ''extras'' = Some (PDict x))
    \<and> fst ` set p \<subseteq> {''sex'', ''age'', ''evidence'', ''extras''}
    \<and> distinct (map fst p))"
  unfolding get_diagnostic_data_dict_def truthy_dict_def
  by (cases X) (auto simp: Let_def)

theorem get_diagnostic_data_dict_keys_witness:
  "map_of (get_diagnostic_data_dict [] (PStr ''female'') (PInt 30) (Some [(''k'', PInt 1)])) ''extras''
     = Some (PDict [(''k'', PInt 1)])
   \<and> ''extras'' \<notin> fst ` set (get_diagnostic_data_dict [] (PStr ''female'') (PInt 30) (Some []))
   \<and> ''extras'' \<notin> fst ` set (get_diagnostic_data_dict [] (PStr ''female'') (PInt 30) None)"
  using get_diagnostic_data_dict_keys [of "[]" "PStr ''female''" "PInt 30" "Some [(''k'', PInt 1)]"]
        get_diagnostic_data_dict_keys [of "[]" "PStr ''female''" "PInt 30" "Some []"]
        get_diagnostic_data_dict_keys [of "[]" "PStr ''female''" "PInt 30" "None"]
  by (simp add: Let_def)

subsection \<open>Validation of the search filters\<close>

lemma check_types_first_invalid:
  "\<exists>t\<in>set ts. \<not> hv (g t) \<Longrightarrow>
   \<exists>pre t post. ts = pre @ t # post \<and> (\<forall>x\<in>set pre. hv (g x)) \<and> \<not> hv (g t)
      \<and> check_types hv (map g ts) = Inl (InvalidSearchConceptType (g t))"
proof (induction ts)
  case Nil
  then show ?case by simp
next
  case (Cons a ts)
  show ?case
  proof (cases "hv (g a)")
    case False
    then have "a # ts = [] @ a # ts \<and> (\<forall>x\<in>set []. hv (g x)) \<and> \<not> hv (g a)
      \<and> check_types hv (map g (a # ts)) = Inl (InvalidSearchConceptType (g a))" by simp
    then show ?thesis by blast
  next
    case True
    with Cons.prems have "\<exists>t\<in>set ts. \<not> hv (g t)" by auto
    from Cons.IH[OF this] obtain pre t post where
      h: "ts = pre @ t # post" "\<forall>x\<in>set pre. hv (g x)" "\<not> hv (g t)"
         "check_types hv (map g ts) = Inl (InvalidSearchConceptType (g t))" by blast
    from h True have "a # ts = (a # pre) @ t # post \<and> (\<forall>x\<in>set (a # pre). hv (g x)) \<and> \<not> hv (g t)
      \<and> check_types hv (map g (a # ts)) = Inl (InvalidSearchConceptType (g t))" by simp
    then show ?thesis by blast
  qed
qed

lemma search_invalid:
  assumes "check_types (has_value E) (map (get_value E) ts) = Inl e"
  shows "fst (APIv2_search (E\<lparr>parent := p\<rparr>) \<sigma> phrase sex max_results (Some ts) kw) = Inl e"
proof -
  from assms have "ts \<noteq> []" by auto
  with assms show ?thesis
    by (simp add: APIv2_search_def truthy_list_def Let_def case_prod_beta)
qed

text \<open>
  C2. When the \<^verbatim>\<open>types\<close> list of a search holds a value that, once normalised by
  \<^verbatim>\<open>get_value\<close>, is rejected by \<^verbatim>\<open>has_value\<close>, the call fails with
  \<^verbatim>\<open>InvalidSearchConceptType\<close> carrying the first such value (every entry before it is
  valid). The outcome is this error whatever the parent method \<open>p\<close> is: the transport is
  not reached, and no params object is returned.
\<close>

theorem search_rejects_invalid_type:
  assumes "\<exists>t\<in>set ts. \<not> has_value E (get_value E t)"
  shows "\<exists>pre t post. ts = pre @ t # post
           \<and> (\<forall>x\<in>set pre. has_value E (get_value E x))
           \<and> \<not> has_value E (get_value E t)
           \<and> (\<forall>p. fst (APIv2_search (E\<lparr>parent := p\<rparr>) \<sigma> phrase sex max_results (Some ts) kw)
                  = Inl (InvalidSearchConceptType (get_value E t)))"
proof -
  from check_types_first_invalid[OF assms] obtain pre t post where
    h: "ts = pre @ t # post" "\<forall>x\<in>set pre. has_value E (get_value E x)"
       "\<not> has_value E (get_value E t)"
       "check_types (has_value E) (map (get_value E) ts)
          = Inl (InvalidSearchConceptType (get_value E t))"
    by blast
  from search_invalid[OF h(4)] h(1-3) show ?thesis by blast
qed

theorem search_rejects_invalid_type_witness:
  "(\<exists>t\<in>set [''symptom'', ''bogus'', ''nope'']. \<not> has_value test_env (get_value test_env t))
   \<and> (\<exists>pre t post. [''symptom'', ''bogus'', ''nope''] = pre @ t # post
           \<and> (\<forall>x\<in>set pre. has_value test_env (get_value test_env x))
           \<and> \<not> has_value test_env (get_value test_env t)
           \<and> (\<forall>p. fst (APIv2_search (test_env\<lparr>parent := p\<rparr>) empty_store ''cough'' None (PInt 8)
                          (Some [''symptom'', ''bogus'', ''nope'']) no_kwargs)
                  = Inl (InvalidSearchConceptType (get_value test_env t))))
   \<and> fst (APIv2_search test_env empty_store ''cough'' None (PInt 8)
            (Some [''symptom'', ''bogus'', ''nope'']) no_kwargs)
       = Inl (InvalidSearchConceptType ''bogus'')"
proof -
  have h: "\<exists>t\<in>set [''symptom'', ''bogus'', ''nope'']. \<not> has_value test_env (get_value test_env t)"
    by (simp add: test_env_def)
  have v: "fst (APIv2_search test_env empty_store ''cough'' None (PInt 8)
            (Some [''symptom'', ''bogus'', ''nope'']) no_kwargs)
       = Inl (InvalidSearchConceptType ''bogus'')"
    by (simp add: APIv2_search_def eval_ops)
  from h search_rejects_invalid_type[OF h] v show ?thesis by (intro conjI)
qed

subsection \<open>The interview-id header\<close>

lemma suggest_sends_headers:
  assumes "\<not> aliased (kw_headers kw) (kw_params kw)"
  shows "sends arg_headers
           (\<lambda>p. fst (APIv2_suggest (E\<lparr>parent := p\<rparr>) \<sigma> ev sex age extras mr iid kw))
           (dict_update (get_interview_id_headers (interview_header E) iid) (supplied \<sigma> (kw_headers kw)))"
  using assms unfolding APIv2_suggest_def
  by (cases "kw_params kw"; cases "kw_headers kw")
     (auto simp: unfold_ops aliased_def intro!: sendsI)

lemma red_flags_sends_headers:
  assumes "\<not> aliased (kw_headers kw) (kw_params kw)" "get_method E ''red_flags'' = Inr m"
  shows "sends arg_headers
           (\<lambda>p. fst (APIv2_red_flags (E\<lparr>call_api_post := p\<rparr>) \<sigma> ev sex age extras mr iid kw))
           (dict_update (get_interview_id_headers (interview_header E) iid) (supplied \<sigma> (kw_headers kw)))"
  using assms unfolding APIv2_red_flags_def
  by (cases "kw_params kw"; cases "kw_headers kw")
     (auto simp: unfold_ops aliased_def intro!: sendsI)

lemma parse_sends_headers:
  assumes "\<not> aliased (kw_headers kw) (kw_data kw)"
  shows "sends arg_headers
           (\<lambda>p. fst (APIv2_parse (E\<lparr>parent := p\<rparr>) \<sigma> utterance it iid kw))
           (dict_update (get_interview_id_headers (interview_header E) iid) (supplied \<sigma> (kw_headers kw)))"
  using assms unfolding APIv2_parse_def
  by (cases "kw_data kw"; cases "kw_headers kw")
     (auto simp: unfold_ops aliased_def intro!: sendsI)

lemma pop_update_deref:
  "deref (snd (obj_update u (pop_or_new r) \<sigma>)) (fst (obj_update u (pop_or_new r) \<sigma>))
     = dict_update u (supplied \<sigma> r)"
  by (cases r) (simp_all add: pop_or_new_def supplied_def)

lemma call_parent_sends_headers:
  assumes "kw_data kw = None" and "deref \<sigma> h = H"
  shows "sends arg_headers (\<lambda>p. call_parent_with_kwargs (E\<lparr>parent := p\<rparr>) name \<sigma> d h kw) H"
  using assms unfolding call_parent_with_kwargs_def
  by (auto intro!: sendsI)

lemma diagnosis_sends_headers:
  assumes "kw_data kw = None"
  shows "sends arg_headers
           (\<lambda>p. fst (APIv2_diagnosis (E\<lparr>parent := p\<rparr>) \<sigma> ev sex age extras iid kw))
           (dict_update (get_interview_id_headers (interview_header E) iid) (supplied \<sigma> (kw_headers kw)))"
  unfolding APIv2_diagnosis_def
  by (simp add: Let_def case_prod_beta call_parent_sends_headers pop_update_deref assms)

lemma rationale_sends_headers:
  assumes "kw_data kw = None"
  shows "sends arg_headers
           (\<lambda>p. fst (APIv2_rationale (E\<lparr>parent := p\<rparr>) \<sigma> ev sex age extras iid kw))
           (dict_update (get_interview_id_headers (interview_header E) iid) (supplied \<sigma> (kw_headers kw)))"
  unfolding APIv2_rationale_def
  by (simp add: Let_def case_prod_beta call_parent_sends_headers pop_update_deref assms)

lemma explain_sends_headers:
  assumes "kw_data kw = None"
  shows "sends arg_headers
           (\<lambda>p. fst (APIv2_explain (E\<lparr>parent := p\<rparr>) \<sigma> t ev sex age extras iid kw))
           (dict_update (get_interview_id_headers (interview_header E) iid) (supplied \<sigma> (kw_headers kw)))"
  unfolding APIv2_explain_def
  by (simp add: Let_def case_prod_beta call_parent_sends_headers pop_update_deref assms)

lemma triage_sends_headers:
  assumes "kw_data kw = None"
  shows "sends arg_headers
           (\<lambda>p. fst (APIv2_triage (E\<lparr>parent := p\<rparr>) \<sigma> ev sex age extras iid kw))
           (dict_update (get_interview_id_headers (interview_header E) iid) (supplied \<sigma> (kw_headers kw)))"
  unfolding APIv2_triage_def
  by (simp add: Let_def case_prod_beta call_parent_sends_headers pop_update_deref assms)

lemma interview_entry:
  "dict_update (get_interview_id_headers name (Some iid)) d = AList.update name (PStr iid) d"
  by (simp add: get_interview_id_headers_def dict_update_Cons dict_update_Nil)

text \<open>
  C3, as amended. For the session-bound operations of \<^verbatim>\<open>APIv2Connector\<close>, called with
  a non-empty interview id, the headers that reach the parent method (for \<^verbatim>\<open>red_flags\<close>:
  \<^verbatim>\<open>call_api_post\<close>, once \<^verbatim>\<open>_get_method\<close> has returned a method) are the caller's headers
  with the interview-id entry stored on top: the interview-id key holds the session's
  value, also when the caller had set that key, and every other key holds what the caller
  gave. This holds
  \<^item> for \<^verbatim>\<open>suggest\<close> and \<^verbatim>\<open>red_flags\<close> when the caller's headers are not the very object
    passed as \<^verbatim>\<open>params\<close>;
  \<^item> for \<^verbatim>\<open>parse\<close> when the caller's headers are not the very object passed as \<^verbatim>\<open>data\<close>;
  \<^item> for \<^verbatim>\<open>diagnosis\<close>, \<^verbatim>\<open>rationale\<close>, \<^verbatim>\<open>explain\<close> and \<^verbatim>\<open>triage\<close> whenever the call is
    made, that is when \<^verbatim>\<open>kwargs\<close> holds no \<^verbatim>\<open>data\<close>.
\<close>

theorem interview_header_merged:
  assumes "iid \<noteq> []"
  shows "(let caller = supplied \<sigma> (kw_headers kw);
              H = AList.update (interview_header E) (PStr iid) caller
          in map_of H (interview_header E) = Some (PStr iid)
           \<and> (\<forall>k. k \<noteq> interview_header E \<longrightarrow> map_of H k = map_of caller k)
           \<and> (\<not> aliased (kw_headers kw) (kw_params kw) \<longrightarrow>
                sends arg_headers
                  (\<lambda>p. fst (APIv2_suggest (E\<lparr>parent := p\<rparr>) \<sigma> ev sex age extras mr (Some iid) kw)) H
              \<and> (\<forall>m. get_method E ''red_flags'' = Inr m \<longrightarrow>
                   sends arg_headers
                     (\<lambda>p. fst (APIv2_red_flags (E\<lparr>call_api_post := p\<rparr>) \<sigma> ev sex age extras mr
                                  (Some iid) kw)) H))
           \<and> (\<not> aliased (kw_headers kw) (kw_data kw) \<longrightarrow>
                sends arg_headers
                  (\<lambda>p. fst (APIv2_parse (E\<lparr>parent := p\<rparr>) \<sigma> utterance include_tokens (Some iid) kw)) H)
           \<and> (kw_data kw = None \<longrightarrow>
                sends arg_headers
                  (\<lambda>p. fst (APIv2_diagnosis (E\<lparr>parent := p\<rparr>) \<sigma> ev sex age extras (Some iid) kw)) H
              \<and> sends arg_headers
                  (\<lambda>p. fst (APIv2_rationale (E\<lparr>parent := p\<rparr>) \<sigma> ev sex age extras (Some iid) kw)) H
              \<and> sends arg_headers
                  (\<lambda>p. fst (APIv2_explain (E\<lparr>parent := p\<rparr>) \<sigma> target_id ev sex age extras (Some iid) kw)) H
              \<and> sends arg_headers
                  (\<lambda>p. fst (APIv2_triage (E\<lparr>parent := p\<rparr>) \<sigma> ev sex age extras (Some iid) kw)) H))"
  unfolding Let_def
  apply (intro conjI allI impI)
  subgoal by (simp add: update_conv')
  subgoal by (simp add: update_conv')
  subgoal by (rule suggest_sends_headers[where iid="Some iid", unfolded interview_entry])
  subgoal by (rule red_flags_sends_headers[where iid="Some iid", unfolded interview_entry])
  subgoal by (rule parse_sends_headers[where iid="Some iid", unfolded interview_entry])
  subgoal by (rule diagnosis_sends_headers[where iid="Some iid", unfolded interview_entry])
  subgoal by (rule rationale_sends_headers[where iid="Some iid", unfolded interview_entry])
  subgoal by (rule explain_sends_headers[where iid="Some iid", unfolded interview_entry])
  subgoal by (rule triage_sends_headers[where iid="Some iid", unfolded interview_entry])
  done

theorem interview_header_merged_witness:
  "(''i1'' \<noteq> []
      \<and> \<not> aliased (kw_headers (only_headers 0)) (kw_params (only_headers 0))
      \<and> \<not> aliased (kw_headers (only_headers 0)) (kw_data (only_headers 0))
      \<and> get_method test_env ''red_flags'' = Inr ''red_flags'' \<and> kw_data (only_headers 0) = None)
   \<and> sends arg_headers
        (\<lambda>p. fst (APIv2_suggest (test_env\<lparr>parent := p\<rparr>)
                     (empty_store(0 := [(''X-Trace'', PStr ''abc''), (''Interview-Id'', PStr ''old'')]))
                     [] (PStr ''male'') (PInt 42) None (PInt 8) (Some ''i1'') (only_headers 0)))
        [(''X-Trace'', PStr ''abc''), (''Interview-Id'', PStr ''i1'')]
   \<and> sends arg_headers
        (\<lambda>p. fst (APIv2_red_flags (test_env\<lparr>call_api_post := p\<rparr>)
                     (empty_store(0 := [(''X-Trace'', PStr ''abc''), (''Interview-Id'', PStr ''old'')]))
                     [] (PStr ''male'') (PInt 42) None (PInt 8) (Some ''i1'') (only_headers 0)))
        [(''X-Trace'', PStr ''abc''), (''Interview-Id'', PStr ''i1'')]
   \<and> sends arg_headers
        (\<lambda>p. fst (APIv2_parse (test_env\<lparr>parent := p\<rparr>)
                     (empty_store(0 := [(''X-Trace'', PStr ''abc''), (''Interview-Id'', PStr ''old'')]))
                     ''I have a headache'' (PBool False) (Some ''i1'') (only_headers 0)))
        [(''X-Trace'', PStr ''abc''), (''Interview-Id'', PStr ''i1'')]
   \<and> sends arg_headers
        (\<lambda>p. fst (APIv2_diagnosis (test_env\<lparr>parent := p\<rparr>)
                     (empty_store(0 := [(''X-Trace'', PStr ''abc''), (''Interview-Id'', PStr ''old'')]))
                     [] (PStr ''male'') (PInt 42) None (Some ''i1'') (only_headers 0)))
        [(''X-Trace'', PStr ''abc''), (''Interview-Id'', PStr ''i1'')]"
proof -
  have h: "''i1'' \<noteq> []
      \<and> \<not> aliased (kw_headers (only_headers 0)) (kw_params (only_headers 0))
      \<and> \<not> aliased (kw_headers (only_headers 0)) (kw_data (only_headers 0))
      \<and> get_method test_env ''red_flags'' = Inr ''red_flags'' \<and> kw_data (only_headers 0) = None"
    by (simp add: eval_ops aliased_def only_headers_def)
  have e: "interview_header test_env = ''Interview-Id''"
    by (simp add: test_env_def)
  have s: "supplied (empty_store(0 := [(''X-Trace'', PStr ''abc''), (''Interview-Id'', PStr ''old'')]))
             (Some 0)
           = [(''X-Trace'', PStr ''abc''), (''Interview-Id'', PStr ''old'')]"
    by (simp add: eval_ops)
  from h interview_header_merged[where iid="''i1''" and kw="only_headers 0" and E=test_env
      and \<sigma>="empty_store(0 := [(''X-Trace'', PStr ''abc''), (''Interview-Id'', PStr ''old'')])"
      and ev="[]" and sex="PStr ''male''" and age="PInt 42" and extras=None and mr="PInt 8"
      and utterance="''I have a headache''" and include_tokens="PBool False"
      and target_id="''c_1''"]
  show ?thesis
    by (simp add: Let_def e s aliased_def only_headers_def)
qed

text \<open>
  C3, as stated, fails when the caller passes one dictionary as \<^verbatim>\<open>params\<close> and as
  \<^verbatim>\<open>headers\<close>: \<^verbatim>\<open>suggest\<close> first stores \<^verbatim>\<open>max_results\<close> into that object, so the headers
  that reach the transport are not the caller's headers with the interview-id entry
  added: the caller's entry \<^verbatim>\<open>max_results = 100\<close> arrives as 8.
\<close>

theorem shared_params_and_headers_overwritten:
  "fst (APIv2_suggest test_env (empty_store(0 := [(''max_results'', PInt 100)]))
          [] (PStr ''male'') (PInt 42) None (PInt 8) (Some ''i1'') (params_and_headers 0))
     = Inr (PDict [(''method'', PStr ''suggest''),
          (''data'', PDict [(''sex'', PStr ''male''), (''age'', PInt 42), (''evidence'', PList [])]),
          (''params'', PDict [(''max_results'', PInt 8), (''Interview-Id'', PStr ''i1'')]),
          (''headers'', PDict [(''max_results'', PInt 8), (''Interview-Id'', PStr ''i1'')])])
   \<and> map_of [(''max_results'', PInt 8), (''Interview-Id'', PStr ''i1'')] ''max_results''
       \<noteq> map_of [(''max_results'', PInt 100)] ''max_results''"
  apply (intro conjI)
  subgoal by (simp add: APIv2_suggest_def eval_ops params_and_headers_def)
  subgoal by simp
  done

subsection \<open>Mutation of the caller's mappings\<close>

lemma headers_entry_after_update:
  "map_of (snd (obj_update (get_interview_id_headers name (Some iid)) (pop_or_new (Some h)) \<sigma>) h) name
     = Some (PStr iid)"
  by (simp add: pop_or_new_def get_interview_id_headers_def dict_update_Cons dict_update_Nil update_conv')

text \<open>
  C10. A headers mapping that the caller passes to \<^verbatim>\<open>suggest\<close>, \<^verbatim>\<open>red_flags\<close>,
  \<^verbatim>\<open>diagnosis\<close>, \<^verbatim>\<open>rationale\<close>, \<^verbatim>\<open>explain\<close>, \<^verbatim>\<open>triage\<close> or \<^verbatim>\<open>parse\<close> of
  \<^verbatim>\<open>APIv2Connector\<close> together with an interview id is changed in place: in the store
  after the call, the caller's own mapping holds the interview-id entry. This does not
  depend on the outcome of the call (the environment \<open>E\<close>, and with it the transport,
  is arbitrary). For \<^verbatim>\<open>parse\<close>, which updates \<^verbatim>\<open>data\<close> after the headers, the caller has
  not passed the same object as \<^verbatim>\<open>data\<close> too, or the header is not named like a field
  of the body.
\<close>

theorem caller_headers_mutated_in_place:
  assumes "kw_headers kw = Some h"
  shows "map_of (snd (APIv2_suggest E \<sigma> ev sex age extras mr (Some iid) kw) h) (interview_header E)
           = Some (PStr iid)
       \<and> map_of (snd (APIv2_red_flags E \<sigma> ev sex age extras mr (Some iid) kw) h) (interview_header E)
           = Some (PStr iid)
       \<and> map_of (snd (APIv2_diagnosis E \<sigma> ev sex age extras (Some iid) kw) h) (interview_header E)
           = Some (PStr iid)
       \<and> map_of (snd (APIv2_rationale E \<sigma> ev sex age extras (Some iid) kw) h) (interview_header E)
           = Some (PStr iid)
       \<and> map_of (snd (APIv2_explain E \<sigma> target_id ev sex age extras (Some iid) kw) h) (interview_header E)
           = Some (PStr iid)
       \<and> map_of (snd (APIv2_triage E \<sigma> ev sex age extras (Some iid) kw) h) (interview_header E)
           = Some (PStr iid)
       \<and> (kw_data kw \<noteq> Some h \<or> interview_header E \<notin> {''text'', ''include_tokens''} \<longrightarrow>
            map_of (snd (APIv2_parse E \<sigma> utterance include_tokens (Some iid) kw) h) (interview_header E)
              = Some (PStr iid))"
  apply (intro conjI impI)
  subgoal by (simp add: APIv2_suggest_def Let_def case_prod_beta headers_entry_after_update assms)
  subgoal by (simp add: APIv2_red_flags_def Let_def case_prod_beta headers_entry_after_update assms)
  subgoal by (simp add: APIv2_diagnosis_def Let_def case_prod_beta headers_entry_after_update assms)
  subgoal by (simp add: APIv2_rationale_def Let_def case_prod_beta headers_entry_after_update assms)
  subgoal by (simp add: APIv2_explain_def Let_def case_prod_beta headers_entry_after_update assms)
  subgoal by (simp add: APIv2_triage_def Let_def case_prod_beta headers_entry_after_update assms)
  subgoal using assms
    by (cases "kw_data kw")
       (auto simp: APIv2_parse_def Let_def case_prod_beta pop_or_new_def get_interview_id_headers_def
          dict_update_Cons dict_update_Nil update_conv')
  done

theorem caller_headers_mutated_in_place_witness:
  "(kw_headers (only_headers 0) = Some 0 \<and> kw_data (only_headers 0) = None)
   \<and> map_of (snd (APIv2_suggest (test_env\<lparr>parent := (\<lambda>n a. Inl NetworkError)\<rparr>)
               (empty_store(0 := [(''X-Trace'', PStr ''abc'')]))
               [] (PStr ''male'') (PInt 42) None (PInt 8) (Some ''i1'') (only_headers 0)) 0)
        ''Interview-Id'' = Some (PStr ''i1'')
   \<and> map_of (snd (APIv2_parse (test_env\<lparr>parent := (\<lambda>n a. Inl NetworkError)\<rparr>)
               (empty_store(0 := [(''X-Trace'', PStr ''abc'')]))
               ''I have a headache'' (PBool False) (Some ''i1'') (only_headers 0)) 0)
        ''Interview-Id'' = Some (PStr ''i1'')"
proof -
  have h: "kw_headers (only_headers 0) = Some 0 \<and> kw_data (only_headers 0) = None"
    by (simp add: only_headers_def)
  from h have h1: "kw_headers (only_headers 0) = Some 0" by simp
  have e: "interview_header (test_env\<lparr>parent := (\<lambda>n a. Inl NetworkError)\<rparr>) = ''Interview-Id''"
    by (simp add: test_env_def)
  from h caller_headers_mutated_in_place[OF h1, where E="test_env\<lparr>parent := (\<lambda>n a. Inl NetworkError)\<rparr>"
      and \<sigma>="empty_store(0 := [(''X-Trace'', PStr ''abc'')])" and ev="[]" and sex="PStr ''male''"
      and age="PInt 42" and extras=None and mr="PInt 8" and iid="''i1''"
      and utterance="''I have a headache''" and include_tokens="PBool False"]
  show ?thesis
    by (simp add: e only_headers_def)
qed

lemma search_store_on_error:
  assumes "kw_params kw = Some a"
      and "check_types (has_value E) (map (get_value E) ts) = Inl e"
  shows "snd (APIv2_search E \<sigma> phrase sex mr (Some ts) kw) a
           = (let d = dict_update [(''phrase'', PStr phrase), (''max_results'', mr)] (\<sigma> a)
              in if truthy_str sex then AList.update ''sex'' (PStr (the sex)) d else d)"
proof -
  from assms have "ts \<noteq> []" by auto
  with assms show ?thesis
    by (simp add: APIv2_search_def truthy_list_def Let_def case_prod_beta pop_or_new_def
          dict_update_Cons dict_update_Nil)
qed

text \<open>
  C9. When \<^verbatim>\<open>search\<close> raises \<^verbatim>\<open>InvalidSearchConceptType\<close> (its \<^verbatim>\<open>types\<close> hold an
  invalid value) and the caller has passed a \<^verbatim>\<open>params\<close> mapping, that mapping has been
  changed in place: it holds \<^verbatim>\<open>phrase\<close> and \<^verbatim>\<open>max_results\<close>, and \<^verbatim>\<open>sex\<close> when a
  non-empty sex was given; its \<^verbatim>\<open>type\<close> key is as the caller left it.
\<close>

theorem search_mutates_params_before_raising:
  assumes "kw_params kw = Some a"
      and "\<exists>t\<in>set ts. \<not> has_value E (get_value E t)"
  shows "(\<exists>v. fst (APIv2_search E \<sigma> phrase sex mr (Some ts) kw) = Inl (InvalidSearchConceptType v))
       \<and> (let d = snd (APIv2_search E \<sigma> phrase sex mr (Some ts) kw) a
          in map_of d ''phrase'' = Some (PStr phrase)
           \<and> map_of d ''max_results'' = Some mr
           \<and> (\<forall>s. sex = Some s \<and> s \<noteq> [] \<longrightarrow> map_of d ''sex'' = Some (PStr s))
           \<and> map_of d ''type'' = map_of (\<sigma> a) ''type'')"
proof -
  from check_types_first_invalid[OF assms(2)] obtain t where
    c: "check_types (has_value E) (map (get_value E) ts) = Inl (InvalidSearchConceptType (get_value E t))"
    by blast
  have "fst (APIv2_search (E\<lparr>parent := parent E\<rparr>) \<sigma> phrase sex mr (Some ts) kw)
          = Inl (InvalidSearchConceptType (get_value E t))"
    by (rule search_invalid[OF c])
  then have 1: "\<exists>v. fst (APIv2_search E \<sigma> phrase sex mr (Some ts) kw) = Inl (InvalidSearchConceptType v)"
    by simp
  show ?thesis
    apply (rule conjI[OF 1])
    apply (simp only: search_store_on_error[OF assms(1) c])
    apply (auto simp: Let_def truthy_str_def dict_update_Cons dict_update_Nil update_conv')
    done
qed

theorem search_mutates_params_before_raising_witness:
  "(kw_params (only_params 0) = Some 0
     \<and> (\<exists>t\<in>set [''symptom'', ''bogus'']. \<not> has_value test_env (get_value test_env t)))
   \<and> (\<exists>v. fst (APIv2_search test_env (empty_store(0 := [(''max_results'', PInt 100)])) ''cough''
                  (Some ''male'') (PInt 8) (Some [''symptom'', ''bogus'']) (only_params 0))
            = Inl (InvalidSearchConceptType v))
   \<and> snd (APIv2_search test_env (empty_store(0 := [(''max_results'', PInt 100)])) ''cough''
            (Some ''male'') (PInt 8) (Some [''symptom'', ''bogus'']) (only_params 0)) 0
       = [(''max_results'', PInt 8), (''phrase'', PStr ''cough''), (''sex'', PStr ''male'')]"
proof -
  have h: "kw_params (only_params 0) = Some 0
     \<and> (\<exists>t\<in>set [''symptom'', ''bogus'']. \<not> has_value test_env (get_value test_env t))"
    by (simp add: only_params_def test_env_def)
  have v: "snd (APIv2_search test_env (empty_store(0 := [(''max_results'', PInt 100)])) ''cough''
            (Some ''male'') (PInt 8) (Some [''symptom'', ''bogus'']) (only_params 0)) 0
       = [(''max_results'', PInt 8), (''phrase'', PStr ''cough''), (''sex'', PStr ''male'')]"
    by (simp add: APIv2_search_def eval_ops only_params_def)
  from h search_mutates_params_before_raising[OF conjunct1[OF h] conjunct2[OF h],
      where \<sigma>="empty_store(0 := [(''max_results'', PInt 100)])" and phrase="''cough''"
        and sex="Some ''male''" and mr="PInt 8"] v
  show ?thesis by simp
qed

subsection \<open>The explain payload\<close>





subsection \<open>The model-aware layer\<close>

text \<open>
  C4, as amended. With a transport that returns the response \<open>R\<close> (the call is made:
  \<^verbatim>\<open>kwargs\<close> holds no \<^verbatim>\<open>data\<close>), and when \<^verbatim>\<open>update_from_api\<close> accepts \<open>R\<close>, the model-aware
  \<^verbatim>\<open>diagnosis\<close> returns the session object \<open>S\<close> it was given: the same address, not a new
  object. In the state after the call the object at \<open>S\<close> is the one \<^verbatim>\<open>update_from_api\<close> has
  made of it with \<open>R\<close>, and no other session object has changed. When
  \<^verbatim>\<open>update_from_api\<close> raises on \<open>R\<close>, its error is the outcome and no object is returned.
\<close>

theorem diagnosis_returns_same_session:
  assumes "kw_data kw = None" and "\<forall>a. parent E ''diagnosis'' a = Inr R"
  shows "(\<forall>d'. update_from_api E (sessions st S) R = Inr d' \<longrightarrow>
            fst (Model_diagnosis E st S kw) = Inr (Session S)
          \<and> sessions (snd (Model_diagnosis E st S kw)) S = d'
          \<and> (\<forall>S'. S' \<noteq> S \<longrightarrow> sessions (snd (Model_diagnosis E st S kw)) S' = sessions st S'))
       \<and> (\<forall>e d'. update_from_api E (sessions st S) R = Inl (e, d') \<longrightarrow>
            fst (Model_diagnosis E st S kw) = Inl e)"
  using assms
  by (simp add: Model_diagnosis_def APIv2_diagnosis_def call_parent_with_kwargs_def
        Let_def case_prod_beta)

theorem diagnosis_returns_same_session_witness:
  "(kw_data no_kwargs = None
     \<and> (\<forall>a. parent (test_env\<lparr>parent := const_transport (PDict [(''should_stop'', PBool True)])\<rparr>)
               ''diagnosis'' a = Inr (PDict [(''should_stop'', PBool True)]))
     \<and> update_from_api (test_env\<lparr>parent := const_transport (PDict [(''should_stop'', PBool True)])\<rparr>)
         (sessions (test_state empty_store) 7) (PDict [(''should_stop'', PBool True)])
       = Inr (test_session\<lparr>d_more := PDict [(''should_stop'', PBool True)]\<rparr>))
   \<and> fst (Model_diagnosis (test_env\<lparr>parent := const_transport (PDict [(''should_stop'', PBool True)])\<rparr>)
            (test_state empty_store) 7 no_kwargs) = Inr (Session 7)
   \<and> sessions (snd (Model_diagnosis
                       (test_env\<lparr>parent := const_transport (PDict [(''should_stop'', PBool True)])\<rparr>)
                       (test_state empty_store) 7 no_kwargs)) 7
       = test_session\<lparr>d_more := PDict [(''should_stop'', PBool True)]\<rparr>"
proof -
  let ?E = "test_env\<lparr>parent := const_transport (PDict [(''should_stop'', PBool True)])\<rparr>"
  have h: "kw_data no_kwargs = None
     \<and> (\<forall>a. parent ?E ''diagnosis'' a = Inr (PDict [(''should_stop'', PBool True)]))
     \<and> update_from_api ?E (sessions (test_state empty_store) 7) (PDict [(''should_stop'', PBool True)])
       = Inr (test_session\<lparr>d_more := PDict [(''should_stop'', PBool True)]\<rparr>)"
    by (simp add: no_kwargs_def const_transport_def test_env_def test_state_def)
  from h have h1: "kw_data no_kwargs = None"
    and h2: "\<forall>a. parent ?E ''diagnosis'' a = Inr (PDict [(''should_stop'', PBool True)])"
    by simp_all
  from h diagnosis_returns_same_session[OF h1 h2, where st="test_state empty_store" and S=7]
  show ?thesis
    by simp
qed

text \<open>
  C4, as stated for every response, fails on a response that \<^verbatim>\<open>update_from_api\<close> rejects:
  the transport has produced it, and \<^verbatim>\<open>diagnosis\<close> raises instead of returning the session.
\<close>

theorem diagnosis_raises_on_rejected_response:
  "fst (Model_diagnosis
          (test_env\<lparr>parent := const_transport (PDict [(''should_stop'', PBool True)]),
                    update_from_api := rejecting_update\<rparr>)
          (test_state empty_store) 7 no_kwargs)
     = Inl MalformedResponseError
   \<and> fst (Model_diagnosis
          (test_env\<lparr>parent := const_transport (PDict [(''should_stop'', PBool True)]),
                    update_from_api := rejecting_update\<rparr>)
          (test_state empty_store) 7 no_kwargs)
     \<noteq> Inr (Session 7)"
  by (simp add: Model_diagnosis_def APIv2_diagnosis_def eval_ops const_transport_def
        rejecting_update_def test_state_def get_api_request_def)

text \<open>
  C6 (what the code does). \<^verbatim>\<open>ModelAPIv2Connector.suggest\<close> and \<^verbatim>\<open>red_flags\<close> never read
  their \<^verbatim>\<open>**kwargs\<close>: a call with keyword arguments is the call without them. With the
  caller's header \<^verbatim>\<open>X-Trace\<close>, the transport of \<^verbatim>\<open>suggest\<close> gets the interview-id header
  alone, where the transport of \<^verbatim>\<open>rationale\<close> gets both.
\<close>

theorem Model_suggest_drops_kwargs:
  "Model_suggest E st S mr kw = Model_suggest E st S mr no_kwargs
   \<and> Model_red_flags E st S mr kw = Model_red_flags E st S mr no_kwargs
   \<and> fst (Model_suggest test_env (test_state (empty_store(0 := [(''X-Trace'', PStr ''abc'')]))) 7 (PInt 8)
            (only_headers 0))
     = Inr (Raw (PDict [(''method'', PStr ''suggest''),
          (''data'', PDict [(''sex'', PStr ''male''), (''age'', PInt 42), (''evidence'', PList [])]),
          (''params'', PDict [(''max_results'', PInt 8)]),
          (''headers'', PDict [(''Interview-Id'', PStr ''i1'')])]))
   \<and> fst (Model_rationale test_env (test_state (empty_store(0 := [(''X-Trace'', PStr ''abc'')]))) 7
            (only_headers 0))
     = Inr (Typed (PDict [(''method'', PStr ''rationale''),
          (''data'', PDict [(''sex'', PStr ''male''), (''age'', PInt 42), (''evidence'', PList [])]),
          (''params'', PNone),
          (''headers'', PDict [(''X-Trace'', PStr ''abc''), (''Interview-Id'', PStr ''i1'')])]))"
  apply (intro conjI)
  subgoal by (simp add: Model_suggest_def)
  subgoal by (simp add: Model_red_flags_def)
  subgoal by (simp add: Model_suggest_def APIv2_suggest_def eval_ops only_headers_def test_state_def test_session_def get_api_request_def return_raw_def)
  subgoal by (simp add: Model_rationale_def APIv2_rationale_def eval_ops only_headers_def test_state_def test_session_def get_api_request_def return_model_def)
  done

subsection \<open>Precedence in the merged mappings\<close>

lemma dict_update_append: "dict_update (u @ v) d = dict_update v (dict_update u d)"
  by (simp add: dict_update_def)

lemma map_of_dict_update:
  "distinct (map fst u) \<Longrightarrow>
   map_of (dict_update u d) k = (case map_of u k of Some v \<Rightarrow> Some v | None \<Rightarrow> map_of d k)"
proof (induction u arbitrary: d)
  case Nil
  then show ?case by (simp add: dict_update_Nil)
next
  case (Cons e u)
  obtain k' v' where e: "e = (k', v')" by (cases e)
  from Cons.prems e have d: "distinct (map fst u)" and n: "k' \<notin> fst ` set u" by auto
  from n have "map_of u k' = None" by (simp add: map_of_eq_None_iff)
  with Cons.IH[OF d, of "AList.update k' v' d"] e show ?case
    by (auto simp: dict_update_Cons update_conv' split: option.splits)
qed

lemma check_types_valid:
  "\<forall>t\<in>set ts. hv (g t) \<Longrightarrow> check_types hv (map g ts) = Inr ()"
  by (induction ts) auto

lemma search_sends_params:
  assumes "\<forall>t\<in>set (case types of None \<Rightarrow> [] | Some ts \<Rightarrow> ts). has_value E (get_value E t)"
  shows "sends arg_params
           (\<lambda>p. fst (APIv2_search (E\<lparr>parent := p\<rparr>) \<sigma> phrase sex mr types kw))
           (dict_update (search_entries (get_value E) phrase sex mr types) (supplied \<sigma> (kw_params kw)))"
proof -
  have c: "check_types (has_value E) (map (get_value E) (the types)) = Inr ()" if "truthy_list types"
    using that assms by (cases types) (auto simp: truthy_list_def intro: check_types_valid)
  show ?thesis
    unfolding APIv2_search_def search_entries_def
    by (cases "kw_params kw"; cases "truthy_str sex"; cases "truthy_list types")
       (auto simp: c unfold_ops dict_update_append intro!: sendsI)
qed

lemma suggest_sends_params:
  assumes "\<not> aliased (kw_headers kw) (kw_params kw)"
  shows "sends arg_params
           (\<lambda>p. fst (APIv2_suggest (E\<lparr>parent := p\<rparr>) \<sigma> ev sex age extras mr iid kw))
           (dict_update [(''max_results'', mr)] (supplied \<sigma> (kw_params kw)))"
  using assms unfolding APIv2_suggest_def
  by (cases "kw_params kw"; cases "kw_headers kw")
     (auto simp: unfold_ops aliased_def intro!: sendsI)

lemma red_flags_sends_params:
  assumes "\<not> aliased (kw_headers kw) (kw_params kw)" "get_method E ''red_flags'' = Inr m"
  shows "sends arg_params
           (\<lambda>p. fst (APIv2_red_flags (E\<lparr>call_api_post := p\<rparr>) \<sigma> ev sex age extras mr iid kw))
           (dict_update [(''max_results'', mr)] (supplied \<sigma> (kw_params kw)))"
  using assms unfolding APIv2_red_flags_def
  by (cases "kw_params kw"; cases "kw_headers kw")
     (auto simp: unfold_ops aliased_def intro!: sendsI)

lemma parse_sends_data:
  assumes "\<not> aliased (kw_headers kw) (kw_data kw)"
  shows "sends arg_data
           (\<lambda>p. fst (APIv2_parse (E\<lparr>parent := p\<rparr>) \<sigma> utterance it iid kw))
           (dict_update [(''text'', PStr utterance), (''include_tokens'', it)] (supplied \<sigma> (kw_data kw)))"
  using assms unfolding APIv2_parse_def
  by (cases "kw_data kw"; cases "kw_headers kw")
     (auto simp: unfold_ops aliased_def intro!: sendsI)

text \<open>
  C8, as amended. Every merged mapping is the caller's mapping updated with the entries
  the operation derives from its own arguments (\<^verbatim>\<open>dict.update\<close>): for a key that both
  have, the value of the operation wins, in \<^verbatim>\<open>params\<close> (\<^verbatim>\<open>phrase\<close>, \<^verbatim>\<open>max_results\<close>,
  \<^verbatim>\<open>sex\<close>, \<^verbatim>\<open>type\<close>), in \<^verbatim>\<open>data\<close> (\<^verbatim>\<open>text\<close>, \<^verbatim>\<open>include_tokens\<close>) and in \<^verbatim>\<open>headers\<close>
  (the interview-id header) alike; an entry of the caller under any other key survives
  unchanged. The first conjunct is this rule of precedence for \<open>dict_update\<close>; the others
  say which mapping each operation sends. Where an operation merges into two mappings
  (\<^verbatim>\<open>params\<close> and \<^verbatim>\<open>headers\<close> in \<^verbatim>\<open>suggest\<close> and \<^verbatim>\<open>red_flags\<close>, \<^verbatim>\<open>data\<close> and \<^verbatim>\<open>headers\<close> in
  \<^verbatim>\<open>parse\<close>), the caller has not passed one and the same object for both.
\<close>

theorem operation_entries_override_caller:
  "(\<forall>u d k. distinct (map fst u) \<longrightarrow>
       map_of (dict_update u d) k = (case map_of u k of Some v \<Rightarrow> Some v | None \<Rightarrow> map_of d k))
   \<and> distinct (map fst (search_entries (get_value E) phrase ssex mr types))
   \<and> ((\<forall>t\<in>set (case types of None \<Rightarrow> [] | Some ts \<Rightarrow> ts). has_value E (get_value E t)) \<longrightarrow>
        sends arg_params
          (\<lambda>p. fst (APIv2_search (E\<lparr>parent := p\<rparr>) \<sigma> phrase ssex mr types kw))
          (dict_update (search_entries (get_value E) phrase ssex mr types) (supplied \<sigma> (kw_params kw))))
   \<and> (\<not> aliased (kw_headers kw) (kw_params kw) \<longrightarrow>
        sends arg_params
          (\<lambda>p. fst (APIv2_suggest (E\<lparr>parent := p\<rparr>) \<sigma> ev sex age extras mr iid kw))
          (dict_update [(''max_results'', mr)] (supplied \<sigma> (kw_params kw)))
      \<and> sends arg_headers
          (\<lambda>p. fst (APIv2_suggest (E\<lparr>parent := p\<rparr>) \<sigma> ev sex age extras mr iid kw))
          (dict_update (get_interview_id_headers (interview_header E) iid) (supplied \<sigma> (kw_headers kw)))
      \<and> (\<forall>m. get_method E ''red_flags'' = Inr m \<longrightarrow>
           sends arg_params
             (\<lambda>p. fst (APIv2_red_flags (E\<lparr>call_api_post := p\<rparr>) \<sigma> ev sex age extras mr iid kw))
             (dict_update [(''max_results'', mr)] (supplied \<sigma> (kw_params kw)))
         \<and> sends arg_headers
             (\<lambda>p. fst (APIv2_red_flags (E\<lparr>call_api_post := p\<rparr>) \<sigma> ev sex age extras mr iid kw))
             (dict_update (get_interview_id_headers (interview_header E) iid) (supplied \<sigma> (kw_headers kw)))))
   \<and> (\<not> aliased (kw_headers kw) (kw_data kw) \<longrightarrow>
        sends arg_data
          (\<lambda>p. fst (APIv2_parse (E\<lparr>parent := p\<rparr>) \<sigma> utterance include_tokens iid kw))
          (dict_update [(''text'', PStr utterance), (''include_tokens'', include_tokens)]
             (supplied \<sigma> (kw_data kw)))
      \<and> sends arg_headers
          (\<lambda>p. fst (APIv2_parse (E\<lparr>parent := p\<rparr>) \<sigma> utterance include_tokens iid kw))
          (dict_update (get_interview_id_headers (interview_header E) iid) (supplied \<sigma> (kw_headers kw))))
   \<and> (kw_data kw = None \<longrightarrow>
        sends arg_headers
          (\<lambda>p. fst (APIv2_diagnosis (E\<lparr>parent := p\<rparr>) \<sigma> ev sex age extras iid kw))
          (dict_update (get_interview_id_headers (interview_header E) iid) (supplied \<sigma> (kw_headers kw)))
      \<and> sends arg_headers
          (\<lambda>p. fst (APIv2_rationale (E\<lparr>parent := p\<rparr>) \<sigma> ev sex age extras iid kw))
          (dict_update (get_interview_id_headers (interview_header E) iid) (supplied \<sigma> (kw_headers kw)))
      \<and> sends arg_headers
          (\<lambda>p. fst (APIv2_explain (E\<lparr>parent := p\<rparr>) \<sigma> target_id ev sex age extras iid kw))
          (dict_update (get_interview_id_headers (interview_header E) iid) (supplied \<sigma> (kw_headers kw)))
      \<and> sends arg_headers
          (\<lambda>p. fst (APIv2_triage (E\<lparr>parent := p\<rparr>) \<sigma> ev sex age extras iid kw))
          (dict_update (get_interview_id_headers (interview_header E) iid) (supplied \<sigma> (kw_headers kw))))"
  apply (intro conjI allI impI)
  subgoal by (rule map_of_dict_update)
  subgoal by (simp add: search_entries_def)
  subgoal by (rule search_sends_params)
  subgoal by (rule suggest_sends_params)
  subgoal by (rule suggest_sends_headers)
  subgoal by (rule red_flags_sends_params)
  subgoal by (rule red_flags_sends_headers)
  subgoal by (rule parse_sends_data)
  subgoal by (rule parse_sends_headers)
  subgoal by (rule diagnosis_sends_headers)
  subgoal by (rule rationale_sends_headers)
  subgoal by (rule explain_sends_headers)
  subgoal by (rule triage_sends_headers)
  done

theorem operation_entries_override_caller_witness:
  "(\<not> aliased (kw_headers (only_params 0)) (kw_params (only_params 0))
      \<and> \<not> aliased (kw_headers (only_params 0)) (kw_data (only_params 0))
      \<and> kw_data (only_params 0) = None
      \<and> get_method test_env ''red_flags'' = Inr ''red_flags''
      \<and> has_value test_env (get_value test_env ''symptom'')
      \<and> distinct (map fst [(''max_results'', PInt 8)]))
   \<and> map_of (dict_update [(''max_results'', PInt 8)] [(''max_results'', PInt 100), (''lang'', PStr ''en'')])
        ''max_results'' = Some (PInt 8)
   \<and> map_of (dict_update [(''max_results'', PInt 8)] [(''max_results'', PInt 100), (''lang'', PStr ''en'')])
        ''lang'' = Some (PStr ''en'')
   \<and> sends arg_params
        (\<lambda>p. fst (APIv2_search (test_env\<lparr>parent := p\<rparr>)
                     (empty_store(0 := [(''max_results'', PInt 100), (''lang'', PStr ''en'')]))
                     ''cough'' (Some ''male'') (PInt 8) (Some [''symptom'']) (only_params 0)))
        [(''max_results'', PInt 8), (''lang'', PStr ''en''), (''phrase'', PStr ''cough''),
         (''sex'', PStr ''male''), (''type'', PList [PStr ''symptom''])]
   \<and> sends arg_params
        (\<lambda>p. fst (APIv2_suggest (test_env\<lparr>parent := p\<rparr>)
                     (empty_store(0 := [(''max_results'', PInt 100), (''lang'', PStr ''en'')]))
                     [] (PStr ''male'') (PInt 42) None (PInt 8) None (only_params 0)))
        [(''max_results'', PInt 8), (''lang'', PStr ''en'')]"
proof -
  let ?\<sigma> = "empty_store(0 := [(''max_results'', PInt 100), (''lang'', PStr ''en'')])"
  have h: "\<not> aliased (kw_headers (only_params 0)) (kw_params (only_params 0))
      \<and> \<not> aliased (kw_headers (only_params 0)) (kw_data (only_params 0))
      \<and> kw_data (only_params 0) = None
      \<and> get_method test_env ''red_flags'' = Inr ''red_flags''
      \<and> has_value test_env (get_value test_env ''symptom'')
      \<and> distinct (map fst [(''max_results'', PInt 8)])"
    by (simp add: eval_ops aliased_def only_params_def)
  have e: "search_entries (get_value test_env) ''cough'' (Some ''male'') (PInt 8) (Some [''symptom''])
           = [(''phrase'', PStr ''cough''), (''max_results'', PInt 8), (''sex'', PStr ''male''),
              (''type'', PList [PStr ''symptom''])]"
    by (simp add: search_entries_def truthy_str_def truthy_list_def test_env_def)
  have s: "supplied ?\<sigma> (Some 0) = [(''max_results'', PInt 100), (''lang'', PStr ''en'')]"
    by (simp add: eval_ops)
  from h operation_entries_override_caller[where E=test_env and \<sigma>="?\<sigma>" and kw="only_params 0"
      and types="Some [''symptom'']" and phrase="''cough''" and ssex="Some ''male''" and mr="PInt 8"
      and ev="[]" and sex="PStr ''male''" and age="PInt 42" and extras=None and iid=None
      and utterance="''headache''" and include_tokens="PBool False" and target_id="''c_1''"]
  show ?thesis
    by (simp add: e s dict_update_Cons dict_update_Nil aliased_def only_params_def)
qed

text \<open>
  C8, as stated, fails: a caller's \<^verbatim>\<open>max_results\<close> and \<^verbatim>\<open>phrase\<close> in \<^verbatim>\<open>params\<close> and a
  caller's \<^verbatim>\<open>text\<close> in \<^verbatim>\<open>data\<close> do not survive the merge. The mock transport shows
  what reached it.
\<close>

theorem caller_entries_overridden:
  "fst (APIv2_search test_env (empty_store(0 := [(''max_results'', PInt 100), (''phrase'', PStr ''flu'')]))
          ''cough'' None (PInt 8) None (only_params 0))
     = Inr (PDict [(''method'', PStr ''search''), (''data'', PNone),
          (''params'', PDict [(''max_results'', PInt 8), (''phrase'', PStr ''cough'')]),
          (''headers'', PNone)])
   \<and> PDict [(''max_results'', PInt 8), (''phrase'', PStr ''cough'')]
       \<noteq> PDict [(''max_results'', PInt 100), (''phrase'', PStr ''flu'')]
   \<and> fst (APIv2_parse test_env (empty_store(0 := [(''text'', PStr ''mine'')]))
          ''headache'' (PBool False) None (only_data 0))
     = Inr (PDict [(''method'', PStr ''parse''),
          (''data'', PDict [(''text'', PStr ''headache''), (''include_tokens'', PBool False)]),
          (''params'', PNone), (''headers'', PDict [])])
   \<and> map_of [(''text'', PStr ''headache''), (''include_tokens'', PBool False)] ''text''
       \<noteq> Some (PStr ''mine'')"
  apply (intro conjI)
  subgoal by (simp add: APIv2_search_def eval_ops only_params_def)
  subgoal by simp
  subgoal by (simp add: APIv2_parse_def eval_ops only_data_def)
  subgoal by simp
  done

subsection \<open>Propagation of errors\<close>

lemma propagates_call: "propagates (\<lambda>c. c x y)"
proof -
  have "\<forall>c. c x y = (case c x y of Inl e \<Rightarrow> Inl e | Inr r \<Rightarrow> Inr r)"
    by (simp split: sum.split)
  then show ?thesis unfolding propagates_def by blast
qed

lemma propagates_call_then:
  "propagates (\<lambda>c. case c x y of Inl e \<Rightarrow> Inl e | Inr r \<Rightarrow> k r)"
  unfolding propagates_def by blast

lemma propagates_error: "propagates (\<lambda>c. Inl e)"
  unfolding propagates_def by blast

lemma propagates_if:
  "propagates f \<Longrightarrow> propagates g \<Longrightarrow> propagates (\<lambda>c. if b then f c else g c)"
  by (cases b) simp_all

lemma propagates_after:
  "(\<And>m. propagates (g m)) \<Longrightarrow> propagates (\<lambda>c. case s of Inl e \<Rightarrow> Inl e | Inr m \<Rightarrow> g m c)"
  by (cases s) (simp_all add: propagates_error)

lemma propagates_then:
  assumes "propagates f"
  shows "propagates (\<lambda>c. case f c of Inl e \<Rightarrow> Inl e | Inr r \<Rightarrow> k r)"
proof -
  from assms consider (err) e where "\<forall>c. f c = Inl e"
    | (call) x y k' where "\<forall>c. f c = (case c x y of Inl e \<Rightarrow> Inl e | Inr r \<Rightarrow> k' r)"
    unfolding propagates_def by blast
  then show ?thesis
  proof cases
    case err
    then have "\<forall>c. (case f c of Inl e \<Rightarrow> Inl e | Inr r \<Rightarrow> k r) = Inl e" by simp
    then show ?thesis unfolding propagates_def by blast
  next
    case call
    then have "\<forall>c. (case f c of Inl e \<Rightarrow> Inl e | Inr r \<Rightarrow> k r)
        = (case c x y of Inl e \<Rightarrow> Inl e
           | Inr r \<Rightarrow> (case k' r of Inl e \<Rightarrow> Inl e | Inr r \<Rightarrow> k r))"
      by (simp split: sum.split)
    then show ?thesis unfolding propagates_def by blast
  qed
qed

lemmas propagates_intros =
  propagates_if propagates_after propagates_call propagates_call_then propagates_error

lemma Basic_red_flags_propagates:
  "propagates (\<lambda>c. Basic_red_flags (E\<lparr>call_api_post := c\<rparr>) d p h)"
  unfolding Basic_red_flags_def
  by (simp cong: sum.case_cong) (intro propagates_intros)

lemma call_parent_with_kwargs_propagates:
  "propagates (\<lambda>c. call_parent_with_kwargs (E\<lparr>parent := c\<rparr>) name \<sigma> d h kw)"
  unfolding call_parent_with_kwargs_def
  by (simp cong: if_cong) (intro propagates_intros)

lemma search_propagates:
  "propagates (\<lambda>c. fst (APIv2_search (E\<lparr>parent := c\<rparr>) \<sigma> phrase ssex mr types kw))"
  unfolding APIv2_search_def
  by (simp add: Let_def case_prod_beta propagates_intros split: sum.split cong: if_cong sum.case_cong)

lemma parse_propagates:
  "propagates (\<lambda>c. fst (APIv2_parse (E\<lparr>parent := c\<rparr>) \<sigma> utterance include_tokens iid kw))"
  unfolding APIv2_parse_def
  by (simp add: Let_def case_prod_beta propagates_intros)

lemma suggest_propagates:
  "propagates (\<lambda>c. fst (APIv2_suggest (E\<lparr>parent := c\<rparr>) \<sigma> ev sex age extras mr iid kw))"
  unfolding APIv2_suggest_def
  by (simp add: Let_def case_prod_beta propagates_intros)

lemma red_flags_propagates:
  "propagates (\<lambda>c. fst (APIv2_red_flags (E\<lparr>call_api_post := c\<rparr>) \<sigma> ev sex age extras mr iid kw))"
  unfolding APIv2_red_flags_def
  by (simp add: Let_def case_prod_beta Basic_red_flags_propagates)

lemma diagnosis_propagates:
  "propagates (\<lambda>c. fst (APIv2_diagnosis (E\<lparr>parent := c\<rparr>) \<sigma> ev sex age extras iid kw))"
  unfolding APIv2_diagnosis_def
  by (simp add: Let_def case_prod_beta call_parent_with_kwargs_propagates)

lemma rationale_propagates:
  "propagates (\<lambda>c. fst (APIv2_rationale (E\<lparr>parent := c\<rparr>) \<sigma> ev sex age extras iid kw))"
  unfolding APIv2_rationale_def
  by (simp add: Let_def case_prod_beta call_parent_with_kwargs_propagates)

lemma explain_propagates:
  "propagates (\<lambda>c. fst (APIv2_explain (E\<lparr>parent := c\<rparr>) \<sigma> target_id ev sex age extras iid kw))"
  unfolding APIv2_explain_def
  by (simp add: Let_def case_prod_beta call_parent_with_kwargs_propagates)

lemma triage_propagates:
  "propagates (\<lambda>c. fst (APIv2_triage (E\<lparr>parent := c\<rparr>) \<sigma> ev sex age extras iid kw))"
  unfolding APIv2_triage_def
  by (simp add: Let_def case_prod_beta call_parent_with_kwargs_propagates)

lemma APIv2_from_json:
  "APIv2_red_flags (E\<lparr>from_json := c\<rparr>) = APIv2_red_flags E"
  "APIv2_parse (E\<lparr>from_json := c\<rparr>) = APIv2_parse E"
  "APIv2_rationale (E\<lparr>from_json := c\<rparr>) = APIv2_rationale E"
  "APIv2_explain (E\<lparr>from_json := c\<rparr>) = APIv2_explain E"
  by (intro ext;
      simp add: APIv2_red_flags_def APIv2_parse_def APIv2_rationale_def APIv2_explain_def
        Basic_red_flags_def call_parent_with_kwargs_def Let_def case_prod_beta
        cong: sum.case_cong if_cong)+

lemma Model_suggest_propagates:
  "propagates (\<lambda>c. fst (Model_suggest (E\<lparr>parent := c\<rparr>) st S mr kw))"
  unfolding Model_suggest_def return_raw_def
  by (simp add: Let_def case_prod_beta) (intro propagates_then suggest_propagates)

lemma Model_triage_propagates:
  "propagates (\<lambda>c. fst (Model_triage (E\<lparr>parent := c\<rparr>) st S kw))"
  unfolding Model_triage_def return_raw_def
  by (simp add: Let_def case_prod_beta) (intro propagates_then triage_propagates)

lemma Model_red_flags_propagates:
  "propagates (\<lambda>c. fst (Model_red_flags (E\<lparr>call_api_post := c\<rparr>) st S mr kw))"
  unfolding Model_red_flags_def return_model_def
  by (simp add: Let_def case_prod_beta cong: sum.case_cong)
     (intro propagates_then red_flags_propagates)

lemma Model_parse_propagates:
  "propagates (\<lambda>c. fst (Model_parse (E\<lparr>parent := c\<rparr>) st utterance include_tokens iid kw))"
  unfolding Model_parse_def return_model_def
  by (simp add: Let_def case_prod_beta cong: sum.case_cong)
     (intro propagates_then parse_propagates)

lemma Model_rationale_propagates:
  "propagates (\<lambda>c. fst (Model_rationale (E\<lparr>parent := c\<rparr>) st S kw))"
  unfolding Model_rationale_def return_model_def
  by (simp add: Let_def case_prod_beta cong: sum.case_cong)
     (intro propagates_then rationale_propagates)

lemma Model_explain_propagates:
  "propagates (\<lambda>c. fst (Model_explain (E\<lparr>parent := c\<rparr>) st S target_id kw))"
  unfolding Model_explain_def return_model_def
  by (simp add: Let_def case_prod_beta cong: sum.case_cong)
     (intro propagates_then explain_propagates)

lemma Model_diagnosis_propagates:
  "propagates (\<lambda>c. fst (Model_diagnosis (E\<lparr>parent := c\<rparr>) st S kw))"
proof -
  have "fst (Model_diagnosis (E\<lparr>parent := c\<rparr>) st S kw) =
      (case fst (APIv2_diagnosis (E\<lparr>parent := c\<rparr>) (dicts st) (d_evidence (sessions st S))
                   (d_sex (sessions st S)) (d_age (sessions st S)) (d_extras (sessions st S))
                   (d_interview_id (sessions st S)) kw) of
         Inl e \<Rightarrow> Inl e
       | Inr r \<Rightarrow> (case update_from_api E (sessions st S) r of
                     Inl (e, d') \<Rightarrow> Inl e | Inr d' \<Rightarrow> Inr (Session S)))" for c
    unfolding Model_diagnosis_def get_api_request_def
    by (simp add: Let_def case_prod_beta split: sum.split)
  then show ?thesis
    using propagates_then[OF diagnosis_propagates] by simp
qed

lemma APIv2_diagnosis_update:
  "APIv2_diagnosis (E\<lparr>update_from_api := u\<rparr>) = APIv2_diagnosis E"
  by (intro ext)
     (simp add: APIv2_diagnosis_def call_parent_with_kwargs_def Let_def case_prod_beta
        cong: if_cong)

lemma Model_diagnosis_conversion:
  "propagates_update (\<lambda>u. fst (Model_diagnosis (E\<lparr>update_from_api := u\<rparr>) st S kw))"
proof -
  let ?X = "fst (APIv2_diagnosis E (dicts st) (d_evidence (sessions st S))
                   (d_sex (sessions st S)) (d_age (sessions st S)) (d_extras (sessions st S))
                   (d_interview_id (sessions st S)) kw)"
  have eq: "fst (Model_diagnosis (E\<lparr>update_from_api := u\<rparr>) st S kw) =
      (case ?X of
         Inl e \<Rightarrow> Inl e
       | Inr r \<Rightarrow> (case u (sessions st S) r of
                     Inl (e, d') \<Rightarrow> Inl e | Inr d' \<Rightarrow> Inr (Session S)))" for u
    unfolding Model_diagnosis_def get_api_request_def
    by (simp add: Let_def case_prod_beta APIv2_diagnosis_update split: sum.split)
  show ?thesis
  proof (cases ?X)
    case (Inl e)
    with eq have "\<forall>u. fst (Model_diagnosis (E\<lparr>update_from_api := u\<rparr>) st S kw) = Inl e"
      by simp
    then show ?thesis unfolding propagates_update_def by blast
  next
    case (Inr r)
    with eq have "\<forall>u. fst (Model_diagnosis (E\<lparr>update_from_api := u\<rparr>) st S kw)
        = (case u (sessions st S) r of Inl (e, d') \<Rightarrow> Inl e | Inr d' \<Rightarrow> Inr (Session S))"
      by simp
    then show ?thesis unfolding propagates_update_def by blast
  qed
qed

lemma Model_red_flags_conversion:
  "propagates (\<lambda>c. fst (Model_red_flags (E\<lparr>from_json := c\<rparr>) st S mr kw))"
  unfolding Model_red_flags_def return_model_def
  by (simp add: Let_def case_prod_beta APIv2_from_json cong: sum.case_cong)
     (intro propagates_intros)

lemma Model_parse_conversion:
  "propagates (\<lambda>c. fst (Model_parse (E\<lparr>from_json := c\<rparr>) st utterance include_tokens iid kw))"
  unfolding Model_parse_def return_model_def
  by (simp add: Let_def case_prod_beta APIv2_from_json cong: sum.case_cong)
     (intro propagates_intros)

lemma Model_rationale_conversion:
  "propagates (\<lambda>c. fst (Model_rationale (E\<lparr>from_json := c\<rparr>) st S kw))"
  unfolding Model_rationale_def return_model_def
  by (simp add: Let_def case_prod_beta APIv2_from_json cong: sum.case_cong)
     (intro propagates_intros)

lemma Model_explain_conversion:
  "propagates (\<lambda>c. fst (Model_explain (E\<lparr>from_json := c\<rparr>) st S target_id kw))"
  unfolding Model_explain_def return_model_def
  by (simp add: Let_def case_prod_beta APIv2_from_json cong: sum.case_cong)
     (intro propagates_intros)

lemma Model_condition_details_propagates:
  "propagates (\<lambda>c. Model_condition_details (E\<lparr>parent := c\<rparr>) st x kw)"
  unfolding Model_condition_details_def return_model_def
  by (simp add: Let_def cong: sum.case_cong) (intro propagates_intros)

lemma Model_condition_details_conversion:
  "propagates (\<lambda>c. Model_condition_details (E\<lparr>from_json := c\<rparr>) st x kw)"
  unfolding Model_condition_details_def return_model_def
  by (simp add: Let_def cong: sum.case_cong) (intro propagates_intros)

lemma Model_conditions_list_propagates:
  "propagates (\<lambda>c. Model_conditions_list (E\<lparr>parent := c\<rparr>) st kw)"
  unfolding Model_conditions_list_def return_model_def
  by (simp add: Let_def cong: sum.case_cong) (intro propagates_intros)

lemma Model_conditions_list_conversion:
  "propagates (\<lambda>c. Model_conditions_list (E\<lparr>from_json := c\<rparr>) st kw)"
  unfolding Model_conditions_list_def return_model_def
  by (simp add: Let_def cong: sum.case_cong) (intro propagates_intros)

lemma Model_symptom_details_propagates:
  "propagates (\<lambda>c. Model_symptom_details (E\<lparr>parent := c\<rparr>) st x kw)"
  unfolding Model_symptom_details_def return_model_def
  by (simp add: Let_def cong: sum.case_cong) (intro propagates_intros)

lemma Model_symptom_details_conversion:
  "propagates (\<lambda>c. Model_symptom_details (E\<lparr>from_json := c\<rparr>) st x kw)"
  unfolding Model_symptom_details_def return_model_def
  by (simp add: Let_def cong: sum.case_cong) (intro propagates_intros)

lemma Model_symptoms_list_propagates:
  "propagates (\<lambda>c. Model_symptoms_list (E\<lparr>parent := c\<rparr>) st kw)"
  unfolding Model_symptoms_list_def return_model_def
  by (simp add: Let_def cong: sum.case_cong) (intro propagates_intros)

lemma Model_symptoms_list_conversion:
  "propagates (\<lambda>c. Model_symptoms_list (E\<lparr>from_json := c\<rparr>) st kw)"
  unfolding Model_symptoms_list_def return_model_def
  by (simp add: Let_def cong: sum.case_cong) (intro propagates_intros)

lemma Model_risk_factor_details_propagates:
  "propagates (\<lambda>c. Model_risk_factor_details (E\<lparr>parent := c\<rparr>) st x kw)"
  unfolding Model_risk_factor_details_def return_model_def
  by (simp add: Let_def cong: sum.case_cong) (intro propagates_intros)

lemma Model_risk_factor_details_conversion:
  "propagates (\<lambda>c. Model_risk_factor_details (E\<lparr>from_json := c\<rparr>) st x kw)"
  unfolding Model_risk_factor_details_def return_model_def
  by (simp add: Let_def cong: sum.case_cong) (intro propagates_intros)

lemma Model_risk_factors_list_propagates:
  "propagates (\<lambda>c. Model_risk_factors_list (E\<lparr>parent := c\<rparr>) st kw)"
  unfolding Model_risk_factors_list_def return_model_def
  by (simp add: Let_def cong: sum.case_cong) (intro propagates_intros)

lemma Model_risk_factors_list_conversion:
  "propagates (\<lambda>c. Model_risk_factors_list (E\<lparr>from_json := c\<rparr>) st kw)"
  unfolding Model_risk_factors_list_def return_model_def
  by (simp add: Let_def cong: sum.case_cong) (intro propagates_intros)

lemma Model_lab_test_details_propagates:
  "propagates (\<lambda>c. Model_lab_test_details (E\<lparr>parent := c\<rparr>) st x kw)"
  unfolding Model_lab_test_details_def return_model_def
  by (simp add: Let_def cong: sum.case_cong) (intro propagates_intros)

lemma Model_lab_test_details_conversion:
  "propagates (\<lambda>c. Model_lab_test_details (E\<lparr>from_json := c\<rparr>) st x kw)"
  unfolding Model_lab_test_details_def return_model_def
  by (simp add: Let_def cong: sum.case_cong) (intro propagates_intros)

lemma Model_lab_tests_list_propagates:
  "propagates (\<lambda>c. Model_lab_tests_list (E\<lparr>parent := c\<rparr>) st kw)"
  unfolding Model_lab_tests_list_def return_model_def
  by (simp add: Let_def cong: sum.case_cong) (intro propagates_intros)

lemma Model_lab_tests_list_conversion:
  "propagates (\<lambda>c. Model_lab_tests_list (E\<lparr>from_json := c\<rparr>) st kw)"
  unfolding Model_lab_tests_list_def return_model_def
  by (simp add: Let_def cong: sum.case_cong) (intro propagates_intros)

text \<open>
  C7. Every operation of \<^verbatim>\<open>BasicAPIv2Connector\<close>, \<^verbatim>\<open>APIv2Connector\<close> and
  \<^verbatim>\<open>ModelAPIv2Connector\<close> propagates the errors of its collaborators unchanged: of the
  parent method that performs the transport call (\<^verbatim>\<open>call_api_post\<close> for \<^verbatim>\<open>red_flags\<close>),
  and, where the response is converted, of the conversion step: the \<^verbatim>\<open>from_json\<close>
  constructor, and \<^verbatim>\<open>update_from_api\<close> for \<^verbatim>\<open>diagnosis\<close>. Seen as a
  function of the collaborator, each operation either raises before reaching it, or
  calls it once and hands its error on as it is; no operation catches an error, wraps
  it or puts a value in its place.
\<close>

theorem errors_propagate_unchanged:
  "propagates (\<lambda>c. fst (APIv2_search (E\<lparr>parent := c\<rparr>) \<sigma> phrase ssex mr types kw))
       \<and> propagates (\<lambda>c. fst (APIv2_parse (E\<lparr>parent := c\<rparr>) \<sigma> utterance include_tokens iid kw))
       \<and> propagates (\<lambda>c. fst (APIv2_suggest (E\<lparr>parent := c\<rparr>) \<sigma> ev sex age extras mr iid kw))
       \<and> propagates (\<lambda>c. Basic_red_flags (E\<lparr>call_api_post := c\<rparr>) d ps hs)
       \<and> propagates (\<lambda>c. fst (APIv2_red_flags (E\<lparr>call_api_post := c\<rparr>) \<sigma> ev sex age extras mr iid kw))
       \<and> propagates (\<lambda>c. fst (APIv2_diagnosis (E\<lparr>parent := c\<rparr>) \<sigma> ev sex age extras iid kw))
       \<and> propagates (\<lambda>c. fst (APIv2_rationale (E\<lparr>parent := c\<rparr>) \<sigma> ev sex age extras iid kw))
       \<and> propagates (\<lambda>c. fst (APIv2_explain (E\<lparr>parent := c\<rparr>) \<sigma> target_id ev sex age extras iid kw))
       \<and> propagates (\<lambda>c. fst (APIv2_triage (E\<lparr>parent := c\<rparr>) \<sigma> ev sex age extras iid kw))
       \<and> propagates (\<lambda>c. fst (Model_suggest (E\<lparr>parent := c\<rparr>) st S mr kw))
       \<and> propagates (\<lambda>c. fst (Model_red_flags (E\<lparr>call_api_post := c\<rparr>) st S mr kw))
       \<and> propagates (\<lambda>c. fst (Model_red_flags (E\<lparr>from_json := c\<rparr>) st S mr kw))
       \<and> propagates (\<lambda>c. fst (Model_parse (E\<lparr>parent := c\<rparr>) st utterance include_tokens iid kw))
       \<and> propagates (\<lambda>c. fst (Model_parse (E\<lparr>from_json := c\<rparr>) st utterance include_tokens iid kw))
       \<and> propagates (\<lambda>c. fst (Model_diagnosis (E\<lparr>parent := c\<rparr>) st S kw))
       \<and> propagates_update (\<lambda>c. fst (Model_diagnosis (E\<lparr>update_from_api := c\<rparr>) st S kw))
       \<and> propagates (\<lambda>c. fst (Model_rationale (E\<lparr>parent := c\<rparr>) st S kw))
       \<and> propagates (\<lambda>c. fst (Model_rationale (E\<lparr>from_json := c\<rparr>) st S kw))
       \<and> propagates (\<lambda>c. fst (Model_explain (E\<lparr>parent := c\<rparr>) st S target_id kw))
       \<and> propagates (\<lambda>c. fst (Model_explain (E\<lparr>from_json := c\<rparr>) st S target_id kw))
       \<and> propagates (\<lambda>c. fst (Model_triage (E\<lparr>parent := c\<rparr>) st S kw))
       \<and> propagates (\<lambda>c. Model_condition_details (E\<lparr>parent := c\<rparr>) st x kw)
       \<and> propagates (\<lambda>c. Model_condition_details (E\<lparr>from_json := c\<rparr>) st x kw)
       \<and> propagates (\<lambda>c. Model_conditions_list (E\<lparr>parent := c\<rparr>) st kw)
       \<and> propagates (\<lambda>c. Model_conditions_list (E\<lparr>from_json := c\<rparr>) st kw)
       \<and> propagates (\<lambda>c. Model_symptom_details (E\<lparr>parent := c\<rparr>) st x kw)
       \<and> propagates (\<lambda>c. Model_symptom_details (E\<lparr>from_json := c\<rparr>) st x kw)
       \<and> propagates (\<lambda>c. Model_symptoms_list (E\<lparr>parent := c\<rparr>) st kw)
       \<and> propagates (\<lambda>c. Model_symptoms_list (E\<lparr>from_json := c\<rparr>) st kw)
       \<and> propagates (\<lambda>c. Model_risk_factor_details (E\<lparr>parent := c\<rparr>) st x kw)
       \<and> propagates (\<lambda>c. Model_risk_factor_details (E\<lparr>from_json := c\<rparr>) st x kw)
       \<and> propagates (\<lambda>c. Model_risk_factors_list (E\<lparr>parent := c\<rparr>) st kw)
       \<and> propagates (\<lambda>c. Model_risk_factors_list (E\<lparr>from_json := c\<rparr>) st kw)
       \<and> propagates (\<lambda>c. Model_lab_test_details (E\<lparr>parent := c\<rparr>) st x kw)
       \<and> propagates (\<lambda>c. Model_lab_test_details (E\<lparr>from_json := c\<rparr>) st x kw)
       \<and> propagates (\<lambda>c. Model_lab_tests_list (E\<lparr>parent := c\<rparr>) st kw)
       \<and> propagates (\<lambda>c. Model_lab_tests_list (E\<lparr>from_json := c\<rparr>) st kw)"
  by (intro conjI)
     (rule search_propagates parse_propagates suggest_propagates Basic_red_flags_propagates red_flags_propagates diagnosis_propagates rationale_propagates explain_propagates triage_propagates Model_suggest_propagates Model_red_flags_propagates Model_red_flags_conversion Model_parse_propagates Model_parse_conversion Model_diagnosis_propagates Model_diagnosis_conversion Model_rationale_propagates Model_rationale_conversion Model_explain_propagates Model_explain_conversion Model_triage_propagates Model_condition_details_propagates Model_condition_details_conversion Model_conditions_list_propagates Model_conditions_list_conversion Model_symptom_details_propagates Model_symptom_details_conversion Model_symptoms_list_propagates Model_symptoms_list_conversion Model_risk_factor_details_propagates Model_risk_factor_details_conversion Model_risk_factors_list_propagates Model_risk_factors_list_conversion Model_lab_test_details_propagates Model_lab_test_details_conversion Model_lab_tests_list_propagates Model_lab_tests_list_conversion)+

end
